theory Spec2Isabelle
  imports Main
begin

section \<open>Enumerations of the controller\<close>

text \<open>
  The repository holds two revisions of the controller class \<open>StickNRoll\<close>:
  revision 1.1.2 (\<open>src/unnamed/part_000\<close>) and revision 1.0.3 (\<open>src/src/index.ts\<close>).
  Definitions without a suffix embed revision 1.1.2; a definition with the suffix
  \<open>_103\<close> embeds the method of the same name of revision 1.0.3, and exists only where the
  two revisions differ.

  TypeScript enum members are written with their enum as a prefix, as the source
  qualifies them (\<open>State.None\<close>, \<open>Strategy.None\<close>, \<open>Direction.None\<close>).
\<close>

datatype Direction = Direction_Down | Direction_None | Direction_Up

datatype Strategy = Strategy_Both | Strategy_None | Strategy_Top

datatype State =
    State_ContainerBottom
  | State_ColliderTop
  | State_ColliderBottom
  | State_None
  | State_TranslateY
  | State_Rest

section \<open>Style declarations\<close>

text \<open>
  \<open>Rules = Pick<CSSStyleDeclaration, 'width' | 'left' | 'top' | 'position' | 'transform'>\<close>:
  five string-valued properties. \<open>Partial<Rules>\<close> has the same keys, each possibly absent.
\<close>

record Rules =
  style_width :: string
  style_left :: string
  style_top :: string
  style_position :: string
  style_transform :: string

record PartialRules =
  rule_width :: "string option"
  rule_left :: "string option"
  rule_top :: "string option"
  rule_position :: "string option"
  rule_transform :: "string option"

definition empty_rules :: PartialRules where
  "empty_rules =
     \<lparr>rule_width = None, rule_left = None, rule_top = None,
      rule_position = None, rule_transform = None\<rparr>"

text \<open>
  Numbers are CSS pixel quantities, modelled as unbounded integers with exact arithmetic.
  This is what JavaScript computes on integers of magnitude below \<open>2 ^ 53\<close>
  (\<open>safe_integer\<close>); fractions, rounding above that bound and the exponent notation that
  JavaScript prints from \<open>10 ^ 21\<close> on are outside the model. The conversion of a number
  to a string (\<open>n + 'px'\<close>, a template literal) writes the decimal digits of a safe
  integer, with a leading minus sign for a negative number.
\<close>

definition safe_integer :: "int \<Rightarrow> bool" where
  "safe_integer n \<longleftrightarrow> - (2 ^ 53) < n \<and> n < 2 ^ 53"

fun digits :: "nat \<Rightarrow> string" where
  "digits n =
     (if n < 10 then [''0123456789'' ! n]
      else digits (n div 10) @ [''0123456789'' ! (n mod 10)])"

declare digits.simps [simp del]

definition Number_toString :: "int \<Rightarrow> string" where
  "Number_toString i = (if i < 0 then CHR ''-'' # digits (nat (- i)) else digits (nat i))"

definition px :: "int \<Rightarrow> string" where
  "px n = Number_toString n @ ''px''"

definition translate3d :: "int \<Rightarrow> string" where
  "translate3d y = ''translate3d(0px, '' @ Number_toString y @ ''px, 0px)''"

section \<open>Readings of the host page\<close>

text \<open>
  Every value the controller reads from the document or the window during one cycle.
  \<open>container_coords_left\<close> and \<open>container_coords_top\<close> are what
  \<open>_getCoords(this.container)\<close> returns (the walk over the offset-parent chain belongs to
  the host page). \<open>containerInner_offsetHeight\<close> is the height of the managed element as
  read before this cycle writes any style; \<open>containerInner_offsetHeight_after\<close> is the
  height read at the end of \<open>_calcDims\<close>, after the styles of the cycle were written.
\<close>

record Env =
  container_coords_left :: int
  container_coords_top :: int
  container_clientHeight :: int
  container_clientWidth :: int
  containerInner_offsetHeight :: int
  containerInner_offsetHeight_after :: int
  window_scrollX :: int
  window_scrollY :: int
  window_innerHeight :: int

section \<open>The controller object\<close>

text \<open>
  The private fields of the class, in the order of their declaration, followed by what the
  controller writes to the page (the five tracked style properties of the managed element
  and the \<open>position\<close> of the container) and by the state of the platform services it
  uses: whether its listeners are registered, and how many callbacks it has queued with
  \<open>window.requestAnimationFrame\<close> that have not run yet.
  \<open>events\<close> is a pair in the source; its two components are the fields
  \<open>events_Resize\<close> (index \<open>Item.Resize\<close>) and \<open>events_Scroll\<close> (index \<open>Item.Scroll\<close>).
\<close>

record StickNRoll =
  events_Resize :: bool
  events_Scroll :: bool
  isRunningRequest :: bool
  translateY :: int
  maxTranslateY :: int
  prevElementHeight :: int
  containerHeight :: int
  containerWidth :: int
  containerLeft :: int
  containerTop :: int
  prevContainerWidth :: int
  prevContainerLeft :: int
  prevContainerTop :: int
  colliderHeight :: int
  colliderTop :: int
  prevColliderTop :: int
  prevViewportScrollX :: int
  prevViewportScrollY :: int
  spaceTop :: int
  prevSpaceTop :: int
  spaceBottom :: int
  prevSpaceBottom :: int
  strategy :: Strategy
  prevStrategy :: Strategy
  prevState :: State
  listOfRules :: Rules
  rules :: PartialRules
  containerInner_style :: Rules
  container_style_position :: string
  listening :: bool
  pendingFrames :: nat

section \<open>Construction and reset\<close>

text \<open>The options object of the constructor; an omitted option is \<open>None\<close>.\<close>

record OptionsType =
  opt_spaceBottom :: "int option"
  opt_spaceTop :: "int option"
  opt_position :: "string option"

text \<open>The nullish coalescing operator \<open>a ?? b\<close>.\<close>

definition nullish :: "'a option \<Rightarrow> 'a \<Rightarrow> 'a" where
  "nullish a b = (case a of None \<Rightarrow> b | Some v \<Rightarrow> v)"

text \<open>
  The constructor. Its second argument here is the style the managed element and the
  container carry in the page before the controller ever writes to them; the constructor
  itself writes nothing.
\<close>

definition constructor :: "OptionsType \<Rightarrow> Rules \<Rightarrow> string \<Rightarrow> StickNRoll" where
  "constructor options page_style page_container_position =
     \<lparr>events_Resize = False,
      events_Scroll = False,
      isRunningRequest = False,
      translateY = 0,
      maxTranslateY = 0,
      prevElementHeight = 0,
      containerHeight = 0,
      containerWidth = 0,
      containerLeft = 0,
      containerTop = 0,
      prevContainerWidth = 0,
      prevContainerLeft = 0,
      prevContainerTop = 0,
      colliderHeight = 0,
      colliderTop = 0,
      prevColliderTop = 0,
      prevViewportScrollX = 0,
      prevViewportScrollY = 0,
      spaceTop = nullish (opt_spaceTop options) 0,
      prevSpaceTop = nullish (opt_spaceTop options) 0,
      spaceBottom = nullish (opt_spaceBottom options) 0,
      prevSpaceBottom = nullish (opt_spaceBottom options) 0,
      strategy = Strategy_None,
      prevStrategy = Strategy_None,
      prevState = State_None,
      listOfRules =
        \<lparr>style_width = ''initial'', style_left = ''initial'', style_top = ''initial'',
         style_position = nullish (opt_position options) ''initial'',
         style_transform = ''initial''\<rparr>,
      rules = empty_rules,
      containerInner_style = page_style,
      container_style_position = page_container_position,
      listening = False,
      pendingFrames = 0\<rparr>"

text \<open>\<open>_init\<close>: reset the running fields to their defaults.\<close>

definition init :: "StickNRoll \<Rightarrow> StickNRoll" where
  "init s =
     s\<lparr>colliderHeight := 0,
       colliderTop := 0,
       containerHeight := 0,
       containerLeft := 0,
       containerTop := 0,
       containerWidth := 0,
       events_Resize := False,
       events_Scroll := False,
       isRunningRequest := False,
       maxTranslateY := 0,
       prevColliderTop := 0,
       prevContainerLeft := 0,
       prevContainerTop := 0,
       prevContainerWidth := 0,
       prevElementHeight := 0,
       prevState := State_None,
       prevStrategy := Strategy_None,
       prevViewportScrollX := 0,
       prevViewportScrollY := 0,
       rules := empty_rules,
       strategy := Strategy_None,
       translateY := 0\<rparr>"

section \<open>The style resolver\<close>

text \<open>
  The loop at the end of \<open>_render\<close>: every key of \<open>listOfRules\<close> is written to the style of
  the managed element, from \<open>rules\<close> when the key is present there and from
  \<open>listOfRules\<close> otherwise.
\<close>

definition apply_rules :: "PartialRules \<Rightarrow> Rules \<Rightarrow> Rules" where
  "apply_rules r d =
     \<lparr>style_width = nullish (rule_width r) (style_width d),
      style_left = nullish (rule_left r) (style_left d),
      style_top = nullish (rule_top r) (style_top d),
      style_position = nullish (rule_position r) (style_position d),
      style_transform = nullish (rule_transform r) (style_transform d)\<rparr>"

text \<open>
  The first part of \<open>_render\<close>: the branch on the state, which sets \<open>translateY\<close> and
  \<open>rules\<close>. A state that matches no branch (\<open>State.Rest\<close>) leaves both as they are.
\<close>

definition render_rules :: "Env \<Rightarrow> State \<Rightarrow> StickNRoll \<Rightarrow> StickNRoll" where
  "render_rules e state s =
     (if state = State_ContainerBottom then
        s\<lparr>translateY := maxTranslateY s,
          rules :=
            \<lparr>rule_width = Some (px (container_clientWidth e)),
             rule_left = Some ''0px'',
             rule_top = Some (px (spaceTop s)),
             rule_position = Some ''sticky'',
             rule_transform = None\<rparr>\<rparr>
      else if state = State_ColliderBottom then
        s\<lparr>translateY := 0,
          rules :=
            \<lparr>rule_width = Some (px (container_clientWidth e)),
             rule_left = Some (px (containerLeft s - window_scrollX e)),
             rule_top = Some (px (colliderHeight s + spaceTop s - containerInner_offsetHeight e)),
             rule_position = Some ''fixed'',
             rule_transform = None\<rparr>\<rparr>
      else if state = State_ColliderTop then
        s\<lparr>translateY := 0,
          rules :=
            \<lparr>rule_width = Some (px (container_clientWidth e)),
             rule_left = Some (px (containerLeft s - window_scrollX e)),
             rule_top = Some (px (spaceTop s)),
             rule_position = Some ''fixed'',
             rule_transform = None\<rparr>\<rparr>
      else if state = State_None then
        s\<lparr>translateY := 0, rules := empty_rules\<rparr>
      else if state = State_TranslateY then
        (let s' =
           (if prevState s = State_ColliderTop then
              s\<lparr>translateY := prevColliderTop s - containerTop s\<rparr>
            else if prevState s = State_ColliderBottom then
              s\<lparr>translateY :=
                  prevColliderTop s + colliderHeight s - containerTop s - prevElementHeight s\<rparr>
            else if prevState s = State_ContainerBottom then
              s\<lparr>translateY := containerHeight s - containerInner_offsetHeight e\<rparr>
            else s)
         in s'\<lparr>rules :=
                \<lparr>rule_width = None, rule_left = None, rule_top = None,
                 rule_position = Some ''relative'',
                 rule_transform = Some (translate3d (translateY s'))\<rparr>\<rparr>)
      else s)"

text \<open>\<open>_render\<close>: resolve the rules, then write the container's position and the five
  tracked properties of the managed element.\<close>

definition render :: "Env \<Rightarrow> State \<Rightarrow> StickNRoll \<Rightarrow> StickNRoll" where
  "render e state s =
     (let s1 = render_rules e state s;
          s2 = s1\<lparr>container_style_position :=
                    (if state = State_ContainerBottom then ''relative'' else ''initial'')\<rparr>
      in s2\<lparr>containerInner_style := apply_rules (rules s2) (listOfRules s2)\<rparr>)"

section \<open>Direction, state machine and strategy\<close>

definition getDirection :: "Env \<Rightarrow> StickNRoll \<Rightarrow> Direction" where
  "getDirection e s =
     (if prevViewportScrollY s = window_scrollY e then Direction_None
      else if prevViewportScrollY s < window_scrollY e then Direction_Down
      else Direction_Up)"

text \<open>
  \<open>_getState\<close> returns the state and, in one branch, assigns \<open>prevStrategy\<close>; the model
  returns the state together with the controller after the call.
\<close>

definition getState :: "Env \<Rightarrow> Direction \<Rightarrow> StickNRoll \<Rightarrow> State \<times> StickNRoll" where
  "getState e direction s =
     (if prevState s = State_ColliderTop then
        (if colliderTop s \<le> containerTop s then (State_None, s)
         else if colliderTop s + containerInner_offsetHeight e \<ge> containerTop s + containerHeight s
           then (State_ContainerBottom, s)
         else if prevStrategy s = Strategy_Top \<and> containerInner_offsetHeight e > colliderHeight s
           then (State_TranslateY, s\<lparr>prevStrategy := strategy s\<rparr>)
         else if strategy s = Strategy_Both \<and> direction = Direction_Down
           then (State_TranslateY, s)
         else if prevViewportScrollX s \<noteq> window_scrollX e \<or>
                 prevContainerLeft s \<noteq> containerLeft s \<or>
                 prevContainerWidth s \<noteq> containerWidth s \<or>
                 prevContainerTop s \<noteq> containerTop s \<or>
                 prevSpaceBottom s \<noteq> spaceBottom s \<or>
                 prevSpaceTop s \<noteq> spaceTop s
           then (State_ColliderTop, s)
         else (State_Rest, s))
      else if prevState s = State_ColliderBottom then
        (if colliderTop s \<le> containerTop s then (State_None, s)
         else if colliderTop s + colliderHeight s \<ge> containerTop s + containerHeight s
           then (State_ContainerBottom, s)
         else if containerInner_offsetHeight e \<le> colliderHeight s then (State_ColliderTop, s)
         else if direction = Direction_Up \<or> prevElementHeight s \<noteq> containerInner_offsetHeight e
           then (State_TranslateY, s)
         else if prevViewportScrollX s \<noteq> window_scrollX e \<or>
                 prevContainerLeft s \<noteq> containerLeft s \<or>
                 prevContainerWidth s \<noteq> containerWidth s \<or>
                 prevContainerTop s \<noteq> containerTop s \<or>
                 prevSpaceBottom s \<noteq> spaceBottom s \<or>
                 prevSpaceTop s \<noteq> spaceTop s
           then (State_ColliderBottom, s)
         else (State_Rest, s))
      else if prevState s = State_ContainerBottom then
        (if colliderTop s \<le> containerTop s then (State_None, s)
         else if direction = Direction_Up \<and> colliderTop s \<le> containerTop s + maxTranslateY s
           then (State_ColliderTop, s)
         else if containerInner_offsetHeight e < containerTop s + containerHeight s - colliderTop s
           then (State_ColliderTop, s)
         else if prevContainerWidth s \<noteq> containerWidth s then (State_ContainerBottom, s)
         else (State_Rest, s))
      else if prevState s = State_None then
        (if colliderTop s + containerInner_offsetHeight e \<ge> containerTop s + containerHeight s
           then (State_ContainerBottom, s)
         else if containerInner_offsetHeight e < colliderHeight s \<and> colliderTop s \<ge> containerTop s
           then (State_ColliderTop, s)
         else if strategy s = Strategy_Both \<and>
                 colliderTop s + colliderHeight s \<ge> containerTop s + containerInner_offsetHeight e
           then (State_ColliderBottom, s)
         else (State_Rest, s))
      else if prevState s = State_TranslateY then
        (if containerHeight s - translateY s < containerInner_offsetHeight e
           then (State_ContainerBottom, s)
         else if containerInner_offsetHeight e < colliderHeight s \<or>
                 colliderTop s \<le> containerTop s + translateY s
           then (State_ColliderTop, s)
         else if translateY s < maxTranslateY s \<and>
                 colliderTop s + colliderHeight s >
                   containerTop s + translateY s + containerInner_offsetHeight e
           then (State_ColliderBottom, s)
         else (State_Rest, s))
      else (State_Rest, s))"

definition getStrategy :: "Env \<Rightarrow> StickNRoll \<Rightarrow> Strategy" where
  "getStrategy e s =
     (if containerHeight s \<le> containerInner_offsetHeight e then Strategy_None
      else if colliderHeight s < containerInner_offsetHeight e then Strategy_Both
      else Strategy_Top)"

section \<open>The scroll cycle and the resize cycle\<close>

definition calcScroll :: "Env \<Rightarrow> StickNRoll \<Rightarrow> StickNRoll" where
  "calcScroll e s =
     (let s1 = s\<lparr>colliderTop := window_scrollY e + spaceTop s\<rparr>;
          (state, s2) = getState e (getDirection e s1) s1;
          s3 = (if state \<noteq> State_Rest then (render e state s2)\<lparr>prevState := state\<rparr> else s2)
      in s3\<lparr>prevColliderTop := colliderTop s3,
            prevViewportScrollX := window_scrollX e,
            prevViewportScrollY := window_scrollY e\<rparr>)"

definition calcDims :: "Env \<Rightarrow> StickNRoll \<Rightarrow> StickNRoll" where
  "calcDims e s =
     (let s1 = s\<lparr>containerLeft := container_coords_left e,
                 containerTop := container_coords_top e,
                 containerHeight := container_clientHeight e,
                 containerWidth := container_clientWidth e,
                 colliderHeight := window_innerHeight e - spaceTop s - spaceBottom s,
                 maxTranslateY := container_clientHeight e - containerInner_offsetHeight e\<rparr>;
          s2 = s1\<lparr>strategy := getStrategy e s1\<rparr>;
          s3 = (if strategy s2 = Strategy_None then
                  (if prevStrategy s2 \<noteq> strategy s2 then render e State_None s2 else s2)
                else calcScroll e s2)
      in s3\<lparr>prevContainerWidth := containerWidth s3,
            prevContainerLeft := containerLeft s3,
            prevContainerTop := containerTop s3,
            prevElementHeight := containerInner_offsetHeight_after e,
            prevStrategy := strategy s3,
            prevSpaceBottom := spaceBottom s3,
            prevSpaceTop := spaceTop s3\<rparr>)"

section \<open>Signals and frame scheduling\<close>

text \<open>
  \<open>_request\<close>: when no request is running, mark one as running and queue one callback
  with \<open>window.requestAnimationFrame\<close>. The callback itself is \<open>frame_callback\<close>.
\<close>

definition request :: "StickNRoll \<Rightarrow> StickNRoll" where
  "request s =
     (if isRunningRequest s then s
      else s\<lparr>isRunningRequest := True, pendingFrames := Suc (pendingFrames s)\<rparr>)"

definition frame_callback :: "Env \<Rightarrow> StickNRoll \<Rightarrow> StickNRoll" where
  "frame_callback e s =
     (let s1 =
        (if events_Resize s then calcDims e (s\<lparr>events_Resize := False\<rparr>)
         else if events_Scroll s then calcScroll e (s\<lparr>events_Scroll := False\<rparr>)
         else s)
      in s1\<lparr>isRunningRequest := False\<rparr>)"

definition resizeListener :: "StickNRoll \<Rightarrow> StickNRoll" where
  "resizeListener s =
     request (if events_Resize s = False then s\<lparr>events_Resize := True\<rparr> else s)"

definition scrollListener :: "StickNRoll \<Rightarrow> StickNRoll" where
  "scrollListener s =
     request (if events_Scroll s = False then s\<lparr>events_Scroll := True\<rparr> else s)"

definition addListeners :: "StickNRoll \<Rightarrow> StickNRoll" where
  "addListeners s = s\<lparr>listening := True\<rparr>"

definition removeListeners :: "StickNRoll \<Rightarrow> StickNRoll" where
  "removeListeners s = s\<lparr>listening := False\<rparr>"

section \<open>Public operations\<close>

definition enable :: "StickNRoll \<Rightarrow> StickNRoll" where
  "enable s = addListeners s"

definition disable :: "Env \<Rightarrow> StickNRoll \<Rightarrow> StickNRoll" where
  "disable e s = render e State_None (init (removeListeners s))"

text \<open>The argument of \<open>updateSpaces\<close>: both fields are optional.\<close>

record Spaces =
  arg_spaceBottom :: "int option"
  arg_spaceTop :: "int option"

definition updateSpaces :: "Spaces \<Rightarrow> StickNRoll \<Rightarrow> StickNRoll" where
  "updateSpaces spaces s =
     resizeListener
       (init (s\<lparr>spaceBottom := nullish (arg_spaceBottom spaces) 0,
                spaceTop := nullish (arg_spaceTop spaces) 0\<rparr>))"

section \<open>Runs of the controller\<close>

text \<open>
  What can happen to a controller: a call of one of its three public operations, the
  delivery of a resize notification or of a scroll event by the page (which reaches the
  controller only while its listeners are registered), and a display frame, which runs
  one queued callback when there is one. Each event comes with the readings of the page
  at that moment.
\<close>

datatype Op =
    Enable
  | Disable
  | UpdateSpaces Spaces
  | Resize_signal
  | Scroll_signal
  | Frame

fun step :: "StickNRoll \<Rightarrow> Env \<times> Op \<Rightarrow> StickNRoll" where
  "step s (e, Enable) = enable s"
| "step s (e, Disable) = disable e s"
| "step s (e, UpdateSpaces spaces) = updateSpaces spaces s"
| "step s (e, Resize_signal) = (if listening s then resizeListener s else s)"
| "step s (e, Scroll_signal) = (if listening s then scrollListener s else s)"
| "step s (e, Frame) =
     (if pendingFrames s > 0
      then frame_callback e (s\<lparr>pendingFrames := pendingFrames s - 1\<rparr>)
      else s)"

definition run :: "(Env \<times> Op) list \<Rightarrow> StickNRoll \<Rightarrow> StickNRoll" where
  "run ops s = foldl step s ops"

section \<open>Revision 1.0.3\<close>

text \<open>
  The class of revision 1.0.3 has the fields of revision 1.1.2 except \<open>prevColliderTop\<close>,
  \<open>prevSpaceTop\<close> and \<open>prevSpaceBottom\<close>; the definitions below neither read nor write
  these three. Its \<open>events\<close> pair holds \<open>Event.Resize\<close>/\<open>Event.Scroll\<close> or \<open>Event.None\<close>
  where revision 1.1.2 holds \<open>true\<close> or \<open>false\<close>. The methods \<open>_getDirection\<close>,
  \<open>_getStrategy\<close>, \<open>_request\<close>, the two listeners and \<open>enable\<close> are the same in both.
\<close>

definition constructor_103 :: "OptionsType \<Rightarrow> Rules \<Rightarrow> string \<Rightarrow> StickNRoll" where
  "constructor_103 options page_style page_container_position =
     \<lparr>events_Resize = False,
      events_Scroll = False,
      isRunningRequest = False,
      translateY = 0,
      maxTranslateY = 0,
      prevElementHeight = 0,
      containerHeight = 0,
      containerWidth = 0,
      containerLeft = 0,
      containerTop = 0,
      prevContainerWidth = 0,
      prevContainerLeft = 0,
      prevContainerTop = 0,
      colliderHeight = 0,
      colliderTop = 0,
      prevColliderTop = 0,
      prevViewportScrollX = 0,
      prevViewportScrollY = 0,
      spaceTop = nullish (opt_spaceTop options) 0,
      prevSpaceTop = 0,
      spaceBottom = nullish (opt_spaceBottom options) 0,
      prevSpaceBottom = 0,
      strategy = Strategy_None,
      prevStrategy = Strategy_None,
      prevState = State_None,
      listOfRules =
        \<lparr>style_width = [], style_left = [], style_top = [],
         style_position = nullish (opt_position options) [],
         style_transform = []\<rparr>,
      rules = empty_rules,
      containerInner_style = page_style,
      container_style_position = page_container_position,
      listening = False,
      pendingFrames = 0\<rparr>"

definition render_rules_103 :: "Env \<Rightarrow> State \<Rightarrow> StickNRoll \<Rightarrow> StickNRoll" where
  "render_rules_103 e state s =
     (if state = State_ContainerBottom then
        s\<lparr>translateY := maxTranslateY s,
          rules :=
            \<lparr>rule_width = Some (px (container_clientWidth e)),
             rule_left = Some ''0px'',
             rule_top = Some (px (spaceTop s)),
             rule_position = Some ''sticky'',
             rule_transform = None\<rparr>\<rparr>
      else if state = State_ColliderBottom then
        s\<lparr>translateY := 0,
          rules :=
            \<lparr>rule_width = Some (px (container_clientWidth e)),
             rule_left = Some (px (containerLeft s - window_scrollX e)),
             rule_top = Some (px (colliderHeight s + spaceTop s - containerInner_offsetHeight e)),
             rule_position = Some ''fixed'',
             rule_transform = None\<rparr>\<rparr>
      else if state = State_ColliderTop then
        s\<lparr>translateY := 0,
          rules :=
            \<lparr>rule_width = Some (px (container_clientWidth e)),
             rule_left = Some (px (containerLeft s - window_scrollX e)),
             rule_top = Some (px (spaceTop s)),
             rule_position = Some ''fixed'',
             rule_transform = None\<rparr>\<rparr>
      else if state = State_None then
        s\<lparr>translateY := 0, rules := empty_rules\<rparr>
      else if state = State_TranslateY then
        (let s' =
           (if prevState s = State_ColliderTop then
              s\<lparr>translateY := colliderTop s - containerTop s\<rparr>
            else if prevState s = State_ColliderBottom then
              s\<lparr>translateY :=
                  colliderTop s + colliderHeight s - containerTop s - prevElementHeight s\<rparr>
            else if prevState s = State_ContainerBottom then
              s\<lparr>translateY := containerHeight s - containerInner_offsetHeight e\<rparr>
            else s)
         in s'\<lparr>rules :=
                \<lparr>rule_width = None, rule_left = None, rule_top = None,
                 rule_position = Some ''relative'',
                 rule_transform = Some (translate3d (translateY s'))\<rparr>\<rparr>)
      else s)"

definition render_103 :: "Env \<Rightarrow> State \<Rightarrow> StickNRoll \<Rightarrow> StickNRoll" where
  "render_103 e state s =
     (let s1 = render_rules_103 e state s;
          s2 = s1\<lparr>container_style_position :=
                    (if state = State_ContainerBottom then ''relative'' else [])\<rparr>
      in s2\<lparr>containerInner_style := apply_rules (rules s2) (listOfRules s2)\<rparr>)"

definition getState_103 :: "Env \<Rightarrow> Direction \<Rightarrow> StickNRoll \<Rightarrow> State \<times> StickNRoll" where
  "getState_103 e direction s =
     (if prevState s = State_ColliderTop then
        (if colliderTop s \<le> containerTop s then (State_None, s)
         else if colliderTop s + containerInner_offsetHeight e \<ge> containerTop s + containerHeight s
           then (State_ContainerBottom, s)
         else if prevStrategy s = Strategy_Top \<and> containerInner_offsetHeight e > colliderHeight s
           then (State_TranslateY, s\<lparr>prevStrategy := strategy s\<rparr>)
         else if strategy s = Strategy_Both \<and> direction = Direction_Down
           then (State_TranslateY, s)
         else if prevViewportScrollX s \<noteq> window_scrollX e \<or>
                 prevContainerLeft s \<noteq> containerLeft s \<or>
                 prevContainerWidth s \<noteq> containerWidth s \<or>
                 prevContainerTop s \<noteq> containerTop s
           then (State_ColliderTop, s)
         else (State_Rest, s))
      else if prevState s = State_ColliderBottom then
        (if colliderTop s \<le> containerTop s then (State_None, s)
         else if colliderTop s + colliderHeight s \<ge> containerTop s + containerHeight s
           then (State_ContainerBottom, s)
         else if containerInner_offsetHeight e \<le> colliderHeight s then (State_ColliderTop, s)
         else if direction = Direction_Up \<or> prevElementHeight s \<noteq> containerInner_offsetHeight e
           then (State_TranslateY, s)
         else if prevViewportScrollX s \<noteq> window_scrollX e \<or>
                 prevContainerLeft s \<noteq> containerLeft s \<or>
                 prevContainerWidth s \<noteq> containerWidth s \<or>
                 prevContainerTop s \<noteq> containerTop s
           then (State_ColliderBottom, s)
         else (State_Rest, s))
      else if prevState s = State_ContainerBottom then
        (if colliderTop s \<le> containerTop s then (State_None, s)
         else if direction = Direction_Up \<and> colliderTop s \<le> containerTop s + maxTranslateY s
           then (State_ColliderTop, s)
         else if containerInner_offsetHeight e < containerTop s + containerHeight s - colliderTop s
           then (State_ColliderTop, s)
         else if prevContainerWidth s \<noteq> containerWidth s then (State_ContainerBottom, s)
         else (State_Rest, s))
      else if prevState s = State_None then
        (if colliderTop s + containerInner_offsetHeight e \<ge> containerTop s + containerHeight s
           then (State_ContainerBottom, s)
         else if containerInner_offsetHeight e < colliderHeight s \<and> colliderTop s \<ge> containerTop s
           then (State_ColliderTop, s)
         else if strategy s = Strategy_Both \<and>
                 colliderTop s + colliderHeight s \<ge> containerTop s + containerInner_offsetHeight e
           then (State_ColliderBottom, s)
         else (State_Rest, s))
      else if prevState s = State_TranslateY then
        (if containerHeight s - translateY s < containerInner_offsetHeight e
           then (State_ContainerBottom, s)
         else if containerInner_offsetHeight e < colliderHeight s \<or>
                 colliderTop s \<le> containerTop s + translateY s
           then (State_ColliderTop, s)
         else if translateY s < maxTranslateY s \<and>
                 colliderTop s + colliderHeight s >
                   containerTop s + translateY s + containerInner_offsetHeight e
           then (State_ColliderBottom, s)
         else (State_Rest, s))
      else (State_Rest, s))"

definition calcScroll_103 :: "Env \<Rightarrow> StickNRoll \<Rightarrow> StickNRoll" where
  "calcScroll_103 e s =
     (let s1 = s\<lparr>colliderTop := window_scrollY e + spaceTop s\<rparr>;
          (state, s2) = getState_103 e (getDirection e s1) s1;
          s3 = (if state \<noteq> State_Rest then (render_103 e state s2)\<lparr>prevState := state\<rparr> else s2)
      in s3\<lparr>prevViewportScrollX := window_scrollX e,
            prevViewportScrollY := window_scrollY e\<rparr>)"

definition calcDims_103 :: "Env \<Rightarrow> StickNRoll \<Rightarrow> StickNRoll" where
  "calcDims_103 e s =
     (let s1 = s\<lparr>containerLeft := container_coords_left e,
                 containerTop := container_coords_top e,
                 containerHeight := container_clientHeight e,
                 containerWidth := container_clientWidth e,
                 colliderHeight := window_innerHeight e - spaceTop s - spaceBottom s,
                 maxTranslateY := container_clientHeight e - containerInner_offsetHeight e\<rparr>;
          s2 = s1\<lparr>strategy := getStrategy e s1\<rparr>;
          s3 = (if strategy s2 = Strategy_None then
                  (if prevStrategy s2 \<noteq> strategy s2 then render_103 e State_None s2 else s2)
                else calcScroll_103 e s2)
      in s3\<lparr>prevContainerWidth := containerWidth s3,
            prevContainerLeft := containerLeft s3,
            prevContainerTop := containerTop s3,
            prevElementHeight := containerInner_offsetHeight_after e,
            prevStrategy := strategy s3\<rparr>)"

definition frame_callback_103 :: "Env \<Rightarrow> StickNRoll \<Rightarrow> StickNRoll" where
  "frame_callback_103 e s =
     (let s1 =
        (if events_Resize s then calcDims_103 e (s\<lparr>events_Resize := False\<rparr>)
         else if events_Scroll s then calcScroll_103 e (s\<lparr>events_Scroll := False\<rparr>)
         else s)
      in s1\<lparr>isRunningRequest := False\<rparr>)"

definition disable_103 :: "StickNRoll \<Rightarrow> StickNRoll" where
  "disable_103 s =
     (removeListeners s)\<lparr>isRunningRequest := False, events_Resize := False, events_Scroll := False\<rparr>"

definition updateSpaces_103 :: "Spaces \<Rightarrow> StickNRoll \<Rightarrow> StickNRoll" where
  "updateSpaces_103 spaces s =
     resizeListener
       (s\<lparr>spaceBottom := nullish (arg_spaceBottom spaces) 0,
          spaceTop := nullish (arg_spaceTop spaces) 0\<rparr>)"

fun step_103 :: "StickNRoll \<Rightarrow> Env \<times> Op \<Rightarrow> StickNRoll" where
  "step_103 s (e, Enable) = enable s"
| "step_103 s (e, Disable) = disable_103 s"
| "step_103 s (e, UpdateSpaces spaces) = updateSpaces_103 spaces s"
| "step_103 s (e, Resize_signal) = (if listening s then resizeListener s else s)"
| "step_103 s (e, Scroll_signal) = (if listening s then scrollListener s else s)"
| "step_103 s (e, Frame) =
     (if pendingFrames s > 0
      then frame_callback_103 e (s\<lparr>pendingFrames := pendingFrames s - 1\<rparr>)
      else s)"

definition run_103 :: "(Env \<times> Op) list \<Rightarrow> StickNRoll \<Rightarrow> StickNRoll" where
  "run_103 ops s = foldl step_103 s ops"

section \<open>The specification's classifier and transition table\<close>

text \<open>
  The strategy classifier as the specification words it, a function of three numbers:
  \<^enum> if containerHeight \<open>\<le>\<close> elementHeight, \<open>None\<close>;
  \<^enum> else if colliderHeight \<open><\<close> elementHeight, \<open>Both\<close>;
  \<^enum> else \<open>Top\<close>.
\<close>

definition classify :: "int \<Rightarrow> int \<Rightarrow> int \<Rightarrow> Strategy" where
  "classify container_height element_height collider_height =
     (if container_height \<le> element_height then Strategy_None
      else if collider_height < element_height then Strategy_Both
      else Strategy_Top)"

section \<open>Example pages\<close>

text \<open>Concrete inputs on which the theorems below are exercised.\<close>

definition page_blank :: Rules where
  "page_blank =
     \<lparr>style_width = [], style_left = [], style_top = [], style_position = [],
      style_transform = []\<rparr>"

definition options_none :: OptionsType where
  "options_none = \<lparr>opt_spaceBottom = None, opt_spaceTop = None, opt_position = None\<rparr>"

text \<open>A container of height 3000 at page offset 100 that holds an element of height 200,
  in a viewport of height 800, not scrolled.\<close>

definition page_tall :: Env where
  "page_tall =
     \<lparr>container_coords_left = 0, container_coords_top = 100, container_clientHeight = 3000,
      container_clientWidth = 300, containerInner_offsetHeight = 200,
      containerInner_offsetHeight_after = 200, window_scrollX = 0, window_scrollY = 0,
      window_innerHeight = 800\<rparr>"

text \<open>The page of \<open>page_tall\<close> scrolled down by 490.\<close>

definition page_tall_scrolled :: Env where
  "page_tall_scrolled = page_tall\<lparr>window_scrollY := 490\<rparr>"

text \<open>The same page scrolled down by 500, after the managed element has grown to a height
  of 1000, above the collider height of 800.\<close>

definition page_tall_grown :: Env where
  "page_tall_grown =
     page_tall\<lparr>window_scrollY := 500, containerInner_offsetHeight := 1000,
       containerInner_offsetHeight_after := 1000\<rparr>"

text \<open>A run that docks the element at the top of the collider: enable, the first resize
  notification and its frame, then a scroll to 490 and its frame.\<close>

definition ops_dock_top :: "(Env \<times> Op) list" where
  "ops_dock_top =
     [(page_tall, Enable), (page_tall, Resize_signal), (page_tall, Frame),
      (page_tall_scrolled, Scroll_signal), (page_tall_scrolled, Frame)]"

section \<open>The scheduling guard\<close>

text \<open>The events the page delivers by itself: signals and frames.\<close>

fun signal_or_frame :: "Op \<Rightarrow> bool" where
  "signal_or_frame Resize_signal = True"
| "signal_or_frame Scroll_signal = True"
| "signal_or_frame Frame = True"
| "signal_or_frame Enable = False"
| "signal_or_frame Disable = False"
| "signal_or_frame (UpdateSpaces spaces) = False"

text \<open>The guard \<open>isRunningRequest\<close> agrees with the queue of the platform: a callback is
  queued exactly when the guard is set, and then it is the only one.\<close>

definition guard_consistent :: "StickNRoll \<Rightarrow> bool" where
  "guard_consistent s \<longleftrightarrow> pendingFrames s = (if isRunningRequest s then 1 else 0)"

section \<open>The state a scroll cycle computes\<close>

text \<open>\<open>computed_state e s\<close> is the value of the local constant \<open>state\<close> of \<open>_calcScroll\<close>:
  what \<open>_getState(_getDirection())\<close> returns once \<open>colliderTop\<close> has been refreshed.\<close>

definition computed_state :: "Env \<Rightarrow> StickNRoll \<Rightarrow> State" where
  "computed_state e s =
     fst (getState e (getDirection e (s\<lparr>colliderTop := window_scrollY e + spaceTop s\<rparr>))
           (s\<lparr>colliderTop := window_scrollY e + spaceTop s\<rparr>))"

definition computed_state_103 :: "Env \<Rightarrow> StickNRoll \<Rightarrow> State" where
  "computed_state_103 e s =
     fst (getState_103 e (getDirection e (s\<lparr>colliderTop := window_scrollY e + spaceTop s\<rparr>))
           (s\<lparr>colliderTop := window_scrollY e + spaceTop s\<rparr>))"

text \<open>A fresh controller with default options on a page without styles.\<close>

definition controller_fresh :: StickNRoll where
  "controller_fresh = constructor options_none page_blank []"

definition controller_fresh_103 :: StickNRoll where
  "controller_fresh_103 = constructor_103 options_none page_blank []"

text \<open>A burst of signals before one frame: a resize notification and two scroll events,
  then two frames.\<close>

definition ops_burst :: "(Env \<times> Op) list" where
  "ops_burst =
     [(page_tall, Resize_signal), (page_tall_scrolled, Scroll_signal),
      (page_tall_scrolled, Scroll_signal), (page_tall_scrolled, Frame),
      (page_tall_scrolled, Frame)]"

section \<open>The transition table of the specification\<close>

text \<open>
  The specification lists, for each previous state, conditions that are tested in order,
  each with the state it leads to; the first condition that holds decides, and \<open>Rest\<close> is
  the result when none holds. \<open>spec_table\<close> is that list, written from the words of the
  specification over the fields of the controller and the readings of the page
  (elementHeight is the height of the managed element read in this cycle). Its first
  argument stands for the condition of the refresh rule of \<open>ColliderTop\<close> and
  \<open>ColliderBottom\<close>; the specification words it as \<open>geometry_changed\<close>: any of scroll-X,
  containerLeft, containerWidth, containerTop changed since the last cycle.
\<close>

definition geometry_changed :: "Env \<Rightarrow> StickNRoll \<Rightarrow> bool" where
  "geometry_changed e s \<longleftrightarrow>
     window_scrollX e \<noteq> prevViewportScrollX s \<or>
     containerLeft s \<noteq> prevContainerLeft s \<or>
     containerWidth s \<noteq> prevContainerWidth s \<or>
     containerTop s \<noteq> prevContainerTop s"

definition spaces_changed :: "StickNRoll \<Rightarrow> bool" where
  "spaces_changed s \<longleftrightarrow> spaceBottom s \<noteq> prevSpaceBottom s \<or> spaceTop s \<noteq> prevSpaceTop s"

fun spec_table :: "bool \<Rightarrow> State \<Rightarrow> Env \<Rightarrow> Direction \<Rightarrow> StickNRoll \<Rightarrow> (bool \<times> State) list" where
  "spec_table refresh State_ColliderTop e d s =
     [(colliderTop s \<le> containerTop s, State_None),
      (colliderTop s + containerInner_offsetHeight e \<ge> containerTop s + containerHeight s,
         State_ContainerBottom),
      (prevStrategy s = Strategy_Top \<and> containerInner_offsetHeight e > colliderHeight s,
         State_TranslateY),
      (strategy s = Strategy_Both \<and> d = Direction_Down, State_TranslateY),
      (refresh, State_ColliderTop)]"
| "spec_table refresh State_ColliderBottom e d s =
     [(colliderTop s \<le> containerTop s, State_None),
      (colliderTop s + colliderHeight s \<ge> containerTop s + containerHeight s,
         State_ContainerBottom),
      (containerInner_offsetHeight e \<le> colliderHeight s, State_ColliderTop),
      (d = Direction_Up \<or> containerInner_offsetHeight e \<noteq> prevElementHeight s,
         State_TranslateY),
      (refresh, State_ColliderBottom)]"
| "spec_table refresh State_ContainerBottom e d s =
     [(colliderTop s \<le> containerTop s, State_None),
      (d = Direction_Up \<and> colliderTop s \<le> containerTop s + maxTranslateY s, State_ColliderTop),
      (containerInner_offsetHeight e < containerTop s + containerHeight s - colliderTop s,
         State_ColliderTop),
      (containerWidth s \<noteq> prevContainerWidth s, State_ContainerBottom)]"
| "spec_table refresh State_None e d s =
     [(colliderTop s + containerInner_offsetHeight e \<ge> containerTop s + containerHeight s,
         State_ContainerBottom),
      (containerInner_offsetHeight e < colliderHeight s \<and> colliderTop s \<ge> containerTop s,
         State_ColliderTop),
      (strategy s = Strategy_Both \<and>
         colliderTop s + colliderHeight s \<ge> containerTop s + containerInner_offsetHeight e,
         State_ColliderBottom)]"
| "spec_table refresh State_TranslateY e d s =
     [(containerHeight s - translateY s < containerInner_offsetHeight e, State_ContainerBottom),
      (containerInner_offsetHeight e < colliderHeight s \<or>
         colliderTop s \<le> containerTop s + translateY s, State_ColliderTop),
      (translateY s < maxTranslateY s \<and>
         colliderTop s + colliderHeight s >
           containerTop s + translateY s + containerInner_offsetHeight e, State_ColliderBottom)]"
| "spec_table refresh State_Rest e d s = []"

fun first_match :: "(bool \<times> State) list \<Rightarrow> State" where
  "first_match [] = State_Rest"
| "first_match ((c, target) # rest) = (if c then target else first_match rest)"

text \<open>Whether some listed condition holds.\<close>

definition some_condition :: "(bool \<times> State) list \<Rightarrow> bool" where
  "some_condition table = list_ex fst table"

text \<open>A container of height 1000 that holds an element of height 2000.\<close>

definition page_short :: Env where
  "page_short =
     \<lparr>container_coords_left = 0, container_coords_top = 100, container_clientHeight = 1000,
      container_clientWidth = 300, containerInner_offsetHeight = 2000,
      containerInner_offsetHeight_after = 2000, window_scrollX = 0, window_scrollY = 0,
      window_innerHeight = 800\<rparr>"

definition page_short_scrolled :: Env where
  "page_short_scrolled = page_short\<lparr>window_scrollY := 50\<rparr>"

text \<open>Enable, the first resize notification and its frame, then one scroll event and its
  frame, on the page of \<open>page_short\<close>.\<close>

definition ops_short :: "(Env \<times> Op) list" where
  "ops_short =
     [(page_short, Enable), (page_short, Resize_signal), (page_short, Frame),
      (page_short_scrolled, Scroll_signal), (page_short_scrolled, Frame)]"

section \<open>The calls of the state machine in a run\<close>

text \<open>
  \<open>_getState\<close> is called in one place, in \<open>_calcScroll\<close>, with the direction that
  \<open>_getDirection\<close> returns; \<open>_calcScroll\<close> is called from the frame callback and from
  \<open>_calcDims\<close>. The definitions below list, for a run, every call of \<open>_getState\<close> the run
  makes, as the page readings, the direction and the controller at the moment of the call.
  \<open>scroll_call\<close> is the call that \<open>_calcScroll\<close> makes; \<open>resize_entry\<close> is the controller when
  \<open>_calcDims\<close> reaches its branch on the strategy.
\<close>

definition scroll_call :: "Env \<Rightarrow> StickNRoll \<Rightarrow> Env \<times> Direction \<times> StickNRoll" where
  "scroll_call e s =
     (e, getDirection e (s\<lparr>colliderTop := window_scrollY e + spaceTop s\<rparr>),
      s\<lparr>colliderTop := window_scrollY e + spaceTop s\<rparr>)"

definition resize_entry :: "Env \<Rightarrow> StickNRoll \<Rightarrow> StickNRoll" where
  "resize_entry e s =
     (let s1 = s\<lparr>containerLeft := container_coords_left e,
                 containerTop := container_coords_top e,
                 containerHeight := container_clientHeight e,
                 containerWidth := container_clientWidth e,
                 colliderHeight := window_innerHeight e - spaceTop s - spaceBottom s,
                 maxTranslateY := container_clientHeight e - containerInner_offsetHeight e\<rparr>
      in s1\<lparr>strategy := getStrategy e s1\<rparr>)"

definition calcDims_calls :: "Env \<Rightarrow> StickNRoll \<Rightarrow> (Env \<times> Direction \<times> StickNRoll) list" where
  "calcDims_calls e s =
     (if strategy (resize_entry e s) = Strategy_None then []
      else [scroll_call e (resize_entry e s)])"

definition frame_calls :: "Env \<Rightarrow> StickNRoll \<Rightarrow> (Env \<times> Direction \<times> StickNRoll) list" where
  "frame_calls e s =
     (if events_Resize s then calcDims_calls e (s\<lparr>events_Resize := False\<rparr>)
      else if events_Scroll s then [scroll_call e (s\<lparr>events_Scroll := False\<rparr>)]
      else [])"

fun step_calls :: "StickNRoll \<Rightarrow> Env \<times> Op \<Rightarrow> (Env \<times> Direction \<times> StickNRoll) list" where
  "step_calls s (e, Frame) =
     (if pendingFrames s > 0 then frame_calls e (s\<lparr>pendingFrames := pendingFrames s - 1\<rparr>)
      else [])"
| "step_calls s (e, Enable) = []"
| "step_calls s (e, Disable) = []"
| "step_calls s (e, UpdateSpaces spaces) = []"
| "step_calls s (e, Resize_signal) = []"
| "step_calls s (e, Scroll_signal) = []"

fun run_calls :: "(Env \<times> Op) list \<Rightarrow> StickNRoll \<Rightarrow> (Env \<times> Direction \<times> StickNRoll) list" where
  "run_calls [] s = []"
| "run_calls (x # xs) s = step_calls s x @ run_calls xs (step s x)"

text \<open>What a call returns, the table of the specification at that call, and whether the
  call returns the first match of the table, with \<open>Rest\<close> exactly when no condition holds.\<close>

definition call_result :: "Env \<times> Direction \<times> StickNRoll \<Rightarrow> State" where
  "call_result c = (case c of (e, d, s) \<Rightarrow> fst (getState e d s))"

definition call_table :: "Env \<times> Direction \<times> StickNRoll \<Rightarrow> (bool \<times> State) list" where
  "call_table c =
     (case c of (e, d, s) \<Rightarrow> spec_table (geometry_changed e s) (prevState s) e d s)"

definition follows_table :: "Env \<times> Direction \<times> StickNRoll \<Rightarrow> bool" where
  "follows_table c \<longleftrightarrow>
     call_result c = first_match (call_table c) \<and>
     (call_result c = State_Rest \<longleftrightarrow> \<not> some_condition (call_table c))"

text \<open>A controller is settled when its spaces are the ones of the last resize cycle, or
  its previous state is neither \<open>ColliderTop\<close> nor \<open>ColliderBottom\<close>. Between a change of
  the spaces and the next resize cycle the controller is as \<open>_init\<close> left it, up to scroll
  cycles on the zeroed geometry (\<open>reset_until_resized\<close>).\<close>

definition settled :: "StickNRoll \<Rightarrow> bool" where
  "settled s \<longleftrightarrow>
     \<not> (spaces_changed s \<and> (prevState s = State_ColliderTop \<or> prevState s = State_ColliderBottom))"

definition reset_until_resized :: "StickNRoll \<Rightarrow> bool" where
  "reset_until_resized s \<longleftrightarrow>
     \<not> spaces_changed s \<or>
     ((prevState s = State_None \<or> prevState s = State_ContainerBottom) \<and>
      containerTop s = 0 \<and> containerHeight s = 0 \<and> colliderHeight s = 0 \<and>
      maxTranslateY s = 0 \<and> strategy s = Strategy_None)"

text \<open>The height the page reports for the managed element is never negative.\<close>

definition heights_nonnegative :: "(Env \<times> Op) list \<Rightarrow> bool" where
  "heights_nonnegative ops = list_all (\<lambda>x. 0 \<le> containerInner_offsetHeight (fst x)) ops"

section \<open>More example pages\<close>

text \<open>A controller constructed with \<open>spaceTop = 64\<close> and \<open>spaceBottom = 8\<close>.\<close>

definition controller_spaced :: StickNRoll where
  "controller_spaced =
     constructor \<lparr>opt_spaceBottom = Some 8, opt_spaceTop = Some 64, opt_position = None\<rparr>
       page_blank []"

text \<open>The page of \<open>page_tall\<close> scrolled to 2950, where the element reaches the bottom of
  the container, with the container now 400 wide and no resize notification delivered yet.\<close>

definition page_tall_wide :: Env where
  "page_tall_wide = page_tall\<lparr>window_scrollY := 2950, container_clientWidth := 400\<rparr>"

definition ops_dock_bottom_wide :: "(Env \<times> Op) list" where
  "ops_dock_bottom_wide =
     ops_dock_top @ [(page_tall_wide, Scroll_signal), (page_tall_wide, Frame)]"

text \<open>The page of \<open>page_tall_scrolled\<close> with the viewport height reduced to 600 and no resize
  notification delivered.\<close>

definition page_tall_low :: Env where
  "page_tall_low = page_tall_scrolled\<lparr>window_innerHeight := 600\<rparr>"

definition ops_dock_top_low :: "(Env \<times> Op) list" where
  "ops_dock_top_low = ops_dock_top @ [(page_tall_low, Scroll_signal), (page_tall_low, Frame)]"

text \<open>Enable and the first resize cycle on the page of \<open>page_short\<close>, already scrolled
  to 50.\<close>

definition ops_short_late :: "(Env \<times> Op) list" where
  "ops_short_late =
     [(page_short_scrolled, Enable), (page_short_scrolled, Resize_signal),
      (page_short_scrolled, Frame)]"

text \<open>After docking at the top: a scroll cycle on the unchanged page, then \<open>updateSpaces\<close> with
  \<open>spaceTop = 10\<close> and the frame it requests.\<close>

definition ops_dock_respace :: "(Env \<times> Op) list" where
  "ops_dock_respace =
     ops_dock_top @
     [(page_tall_scrolled, Scroll_signal), (page_tall_scrolled, Frame),
      (page_tall_scrolled, UpdateSpaces \<lparr>arg_spaceBottom = None, arg_spaceTop = Some 10\<rparr>),
      (page_tall_scrolled, Frame)]"

text \<open>A resize notification, then \<open>updateSpaces\<close> before the frame.\<close>

definition ops_requeue :: "(Env \<times> Op) list" where
  "ops_requeue =
     [(page_tall, Enable), (page_tall, Resize_signal),
      (page_tall, UpdateSpaces \<lparr>arg_spaceBottom = None, arg_spaceTop = Some 10\<rparr>)]"

text \<open>A resize notification, then \<open>disable\<close> and \<open>enable\<close> before the frame, then a scroll
  event.\<close>

definition ops_reenable :: "(Env \<times> Op) list" where
  "ops_reenable =
     [(page_tall, Enable), (page_tall, Resize_signal), (page_tall, Disable),
      (page_tall, Enable), (page_tall, Scroll_signal)]"

section \<open>What each method leaves unchanged\<close>

lemma getState_snd:
  "snd (getState e d s) = s \<or> snd (getState e d s) = s\<lparr>prevStrategy := strategy s\<rparr>"
  by (cases "prevState s") (simp_all add: getState_def)

lemma getState_103_snd:
  "snd (getState_103 e d s) = s \<or> snd (getState_103 e d s) = s\<lparr>prevStrategy := strategy s\<rparr>"
  by (cases "prevState s") (simp_all add: getState_103_def)

lemma render_keeps:
  "prevState (render e st s) = prevState s"
  "listOfRules (render e st s) = listOfRules s"
  "pendingFrames (render e st s) = pendingFrames s"
  "isRunningRequest (render e st s) = isRunningRequest s"
  "events_Resize (render e st s) = events_Resize s"
  "events_Scroll (render e st s) = events_Scroll s"
  "listening (render e st s) = listening s"
  "spaceTop (render e st s) = spaceTop s"
  "spaceBottom (render e st s) = spaceBottom s"
  "colliderTop (render e st s) = colliderTop s"
  "colliderHeight (render e st s) = colliderHeight s"
  "containerTop (render e st s) = containerTop s"
  "containerWidth (render e st s) = containerWidth s"
  "strategy (render e st s) = strategy s"
  "prevStrategy (render e st s) = prevStrategy s"
  by (simp_all add: render_def render_rules_def Let_def)

lemma render_103_keeps:
  "prevState (render_103 e st s) = prevState s"
  "listOfRules (render_103 e st s) = listOfRules s"
  "pendingFrames (render_103 e st s) = pendingFrames s"
  "isRunningRequest (render_103 e st s) = isRunningRequest s"
  "events_Resize (render_103 e st s) = events_Resize s"
  "events_Scroll (render_103 e st s) = events_Scroll s"
  "listening (render_103 e st s) = listening s"
  "spaceTop (render_103 e st s) = spaceTop s"
  "spaceBottom (render_103 e st s) = spaceBottom s"
  "colliderTop (render_103 e st s) = colliderTop s"
  "colliderHeight (render_103 e st s) = colliderHeight s"
  "containerTop (render_103 e st s) = containerTop s"
  "containerWidth (render_103 e st s) = containerWidth s"
  "strategy (render_103 e st s) = strategy s"
  "prevStrategy (render_103 e st s) = prevStrategy s"
  by (simp_all add: render_103_def render_rules_103_def Let_def)

text \<open>The scroll cycle written with projections instead of a pattern binding.\<close>

lemma calcScroll_unfold:
  "calcScroll e s =
     (let s1 = s\<lparr>colliderTop := window_scrollY e + spaceTop s\<rparr>;
          state = fst (getState e (getDirection e s1) s1);
          s2 = snd (getState e (getDirection e s1) s1);
          s3 = (if state \<noteq> State_Rest then (render e state s2)\<lparr>prevState := state\<rparr> else s2)
      in s3\<lparr>prevColliderTop := colliderTop s3,
            prevViewportScrollX := window_scrollX e,
            prevViewportScrollY := window_scrollY e\<rparr>)"
  by (simp add: calcScroll_def Let_def split_beta)

lemma calcScroll_103_unfold:
  "calcScroll_103 e s =
     (let s1 = s\<lparr>colliderTop := window_scrollY e + spaceTop s\<rparr>;
          state = fst (getState_103 e (getDirection e s1) s1);
          s2 = snd (getState_103 e (getDirection e s1) s1);
          s3 = (if state \<noteq> State_Rest then (render_103 e state s2)\<lparr>prevState := state\<rparr> else s2)
      in s3\<lparr>prevViewportScrollX := window_scrollX e,
            prevViewportScrollY := window_scrollY e\<rparr>)"
  by (simp add: calcScroll_103_def Let_def split_beta)

lemma calcScroll_keeps:
  "listOfRules (calcScroll e s) = listOfRules s"
  "pendingFrames (calcScroll e s) = pendingFrames s"
  "isRunningRequest (calcScroll e s) = isRunningRequest s"
  "events_Resize (calcScroll e s) = events_Resize s"
  "events_Scroll (calcScroll e s) = events_Scroll s"
  "listening (calcScroll e s) = listening s"
  "spaceTop (calcScroll e s) = spaceTop s"
  "spaceBottom (calcScroll e s) = spaceBottom s"
  "colliderHeight (calcScroll e s) = colliderHeight s"
  "containerTop (calcScroll e s) = containerTop s"
  "containerWidth (calcScroll e s) = containerWidth s"
  "strategy (calcScroll e s) = strategy s"
  "colliderTop (calcScroll e s) = window_scrollY e + spaceTop s"
  using getState_snd [of e "getDirection e (s\<lparr>colliderTop := window_scrollY e + spaceTop s\<rparr>)"
      "s\<lparr>colliderTop := window_scrollY e + spaceTop s\<rparr>"]
  by (auto simp add: calcScroll_unfold Let_def render_keeps)

lemma calcScroll_103_keeps:
  "listOfRules (calcScroll_103 e s) = listOfRules s"
  "pendingFrames (calcScroll_103 e s) = pendingFrames s"
  "isRunningRequest (calcScroll_103 e s) = isRunningRequest s"
  "events_Resize (calcScroll_103 e s) = events_Resize s"
  "events_Scroll (calcScroll_103 e s) = events_Scroll s"
  "listening (calcScroll_103 e s) = listening s"
  "spaceTop (calcScroll_103 e s) = spaceTop s"
  "spaceBottom (calcScroll_103 e s) = spaceBottom s"
  "colliderHeight (calcScroll_103 e s) = colliderHeight s"
  "containerTop (calcScroll_103 e s) = containerTop s"
  "containerWidth (calcScroll_103 e s) = containerWidth s"
  "strategy (calcScroll_103 e s) = strategy s"
  "colliderTop (calcScroll_103 e s) = window_scrollY e + spaceTop s"
  using getState_103_snd [of e "getDirection e (s\<lparr>colliderTop := window_scrollY e + spaceTop s\<rparr>)"
      "s\<lparr>colliderTop := window_scrollY e + spaceTop s\<rparr>"]
  by (auto simp add: calcScroll_103_unfold Let_def render_103_keeps)

lemma calcDims_keeps:
  "listOfRules (calcDims e s) = listOfRules s"
  "pendingFrames (calcDims e s) = pendingFrames s"
  "isRunningRequest (calcDims e s) = isRunningRequest s"
  "events_Resize (calcDims e s) = events_Resize s"
  "events_Scroll (calcDims e s) = events_Scroll s"
  "listening (calcDims e s) = listening s"
  "spaceTop (calcDims e s) = spaceTop s"
  "spaceBottom (calcDims e s) = spaceBottom s"
  "colliderHeight (calcDims e s) = window_innerHeight e - spaceTop s - spaceBottom s"
  "containerTop (calcDims e s) = container_coords_top e"
  "containerWidth (calcDims e s) = container_clientWidth e"
  by (simp_all add: calcDims_def Let_def render_keeps calcScroll_keeps)

lemma calcDims_103_keeps:
  "listOfRules (calcDims_103 e s) = listOfRules s"
  "pendingFrames (calcDims_103 e s) = pendingFrames s"
  "isRunningRequest (calcDims_103 e s) = isRunningRequest s"
  "events_Resize (calcDims_103 e s) = events_Resize s"
  "events_Scroll (calcDims_103 e s) = events_Scroll s"
  "listening (calcDims_103 e s) = listening s"
  "spaceTop (calcDims_103 e s) = spaceTop s"
  "spaceBottom (calcDims_103 e s) = spaceBottom s"
  "colliderHeight (calcDims_103 e s) = window_innerHeight e - spaceTop s - spaceBottom s"
  "containerTop (calcDims_103 e s) = container_coords_top e"
  "containerWidth (calcDims_103 e s) = container_clientWidth e"
  by (simp_all add: calcDims_103_def Let_def render_103_keeps calcScroll_103_keeps)

lemma calcDims_strategy:
  "strategy (calcDims e s) =
     classify (container_clientHeight e) (containerInner_offsetHeight e)
       (window_innerHeight e - spaceTop s - spaceBottom s)"
  "strategy (calcDims_103 e s) =
     classify (container_clientHeight e) (containerInner_offsetHeight e)
       (window_innerHeight e - spaceTop s - spaceBottom s)"
  by (simp_all add: calcDims_def calcDims_103_def Let_def getStrategy_def classify_def
      calcScroll_keeps calcScroll_103_keeps render_keeps render_103_keeps)

lemma calcDims_colliderTop:
  "colliderTop (calcDims e s) =
     (if strategy (calcDims e s) = Strategy_None then colliderTop s
      else window_scrollY e + spaceTop s)"
  "colliderTop (calcDims_103 e s) =
     (if strategy (calcDims_103 e s) = Strategy_None then colliderTop s
      else window_scrollY e + spaceTop s)"
  by (simp_all add: calcDims_strategy)
     (simp_all add: calcDims_def calcDims_103_def Let_def getStrategy_def classify_def
      calcScroll_keeps calcScroll_103_keeps render_keeps render_103_keeps)

section \<open>The persisted previous state\<close>

lemma calcScroll_prevState:
  "prevState (calcScroll e s) =
     (if computed_state e s = State_Rest then prevState s else computed_state e s)"
  using getState_snd [of e "getDirection e (s\<lparr>colliderTop := window_scrollY e + spaceTop s\<rparr>)"
      "s\<lparr>colliderTop := window_scrollY e + spaceTop s\<rparr>"]
  by (auto simp add: calcScroll_unfold computed_state_def Let_def render_keeps)

lemma calcScroll_103_prevState:
  "prevState (calcScroll_103 e s) =
     (if computed_state_103 e s = State_Rest then prevState s else computed_state_103 e s)"
  using getState_103_snd [of e "getDirection e (s\<lparr>colliderTop := window_scrollY e + spaceTop s\<rparr>)"
      "s\<lparr>colliderTop := window_scrollY e + spaceTop s\<rparr>"]
  by (auto simp add: calcScroll_103_unfold computed_state_103_def Let_def render_103_keeps)

lemma calcScroll_not_Rest:
  "prevState s \<noteq> State_Rest \<Longrightarrow> prevState (calcScroll e s) \<noteq> State_Rest"
  "prevState s \<noteq> State_Rest \<Longrightarrow> prevState (calcScroll_103 e s) \<noteq> State_Rest"
  by (simp_all add: calcScroll_prevState calcScroll_103_prevState)

lemma calcDims_not_Rest:
  "prevState s \<noteq> State_Rest \<Longrightarrow> prevState (calcDims e s) \<noteq> State_Rest"
  "prevState s \<noteq> State_Rest \<Longrightarrow> prevState (calcDims_103 e s) \<noteq> State_Rest"
  by (simp_all add: calcDims_def calcDims_103_def Let_def render_keeps render_103_keeps
      calcScroll_not_Rest)

lemma step_not_Rest:
  "prevState s \<noteq> State_Rest \<Longrightarrow> prevState (step s x) \<noteq> State_Rest"
  by (cases x, cases "snd x")
     (simp_all add: enable_def addListeners_def disable_def removeListeners_def init_def
      render_keeps updateSpaces_def resizeListener_def scrollListener_def request_def
      frame_callback_def Let_def calcDims_not_Rest calcScroll_not_Rest)

lemma step_103_not_Rest:
  "prevState s \<noteq> State_Rest \<Longrightarrow> prevState (step_103 s x) \<noteq> State_Rest"
  by (cases x, cases "snd x")
     (simp_all add: enable_def addListeners_def disable_103_def removeListeners_def
      updateSpaces_103_def resizeListener_def scrollListener_def request_def
      frame_callback_103_def Let_def calcDims_not_Rest calcScroll_not_Rest)

lemma run_not_Rest:
  "prevState s \<noteq> State_Rest \<Longrightarrow> prevState (run ops s) \<noteq> State_Rest"
  unfolding run_def
  by (induction ops arbitrary: s) (simp_all add: step_not_Rest)

lemma run_103_not_Rest:
  "prevState s \<noteq> State_Rest \<Longrightarrow> prevState (run_103 ops s) \<noteq> State_Rest"
  unfolding run_103_def
  by (induction ops arbitrary: s) (simp_all add: step_103_not_Rest)

section \<open>The configured defaults and the scheduling guard along a run\<close>

lemma step_listOfRules: "listOfRules (step s x) = listOfRules s"
  by (cases x, cases "snd x")
     (simp_all add: enable_def addListeners_def disable_def removeListeners_def init_def
      render_keeps updateSpaces_def resizeListener_def scrollListener_def request_def
      frame_callback_def Let_def calcDims_keeps calcScroll_keeps)

lemma run_listOfRules: "listOfRules (run ops s) = listOfRules s"
  unfolding run_def
  by (induction ops arbitrary: s) (simp_all add: step_listOfRules)

lemma disable_styles:
  "containerInner_style (disable e s) = listOfRules s"
  "container_style_position (disable e s) = ''initial''"
  by (simp_all add: disable_def render_def render_rules_def Let_def apply_rules_def nullish_def
      empty_rules_def init_def removeListeners_def)

lemma frame_callback_keeps:
  "pendingFrames (frame_callback e s) = pendingFrames s"
  "isRunningRequest (frame_callback e s) = False"
  "pendingFrames (frame_callback_103 e s) = pendingFrames s"
  "isRunningRequest (frame_callback_103 e s) = False"
  by (simp_all add: frame_callback_def frame_callback_103_def Let_def
      calcDims_keeps calcScroll_keeps calcDims_103_keeps calcScroll_103_keeps)

lemma listener_guard:
  "guard_consistent s \<Longrightarrow> guard_consistent (resizeListener s)"
  "guard_consistent s \<Longrightarrow> guard_consistent (scrollListener s)"
  by (simp_all add: guard_consistent_def resizeListener_def scrollListener_def request_def)

lemma frame_guard:
  "guard_consistent s \<Longrightarrow> 0 < pendingFrames s \<Longrightarrow>
     guard_consistent (frame_callback e (s\<lparr>pendingFrames := pendingFrames s - Suc 0\<rparr>))"
  "guard_consistent s \<Longrightarrow> 0 < pendingFrames s \<Longrightarrow>
     guard_consistent (frame_callback_103 e (s\<lparr>pendingFrames := pendingFrames s - Suc 0\<rparr>))"
  by (simp_all add: guard_consistent_def frame_callback_keeps split: if_splits)

lemma step_guard:
  assumes "signal_or_frame (snd x)" and "guard_consistent s"
  shows "guard_consistent (step s x)" and "guard_consistent (step_103 s x)"
proof -
  obtain e op where x: "x = (e, op)" by (cases x)
  with assms show "guard_consistent (step s x)"
    by (cases op) (simp_all add: listener_guard frame_guard)
  from x assms show "guard_consistent (step_103 s x)"
    by (cases op) (simp_all add: listener_guard frame_guard)
qed

lemma run_guard:
  "list_all (\<lambda>x. signal_or_frame (snd x)) ops \<Longrightarrow> guard_consistent s \<Longrightarrow>
     guard_consistent (run ops s)"
  unfolding run_def
  by (induction ops arbitrary: s) (simp_all add: step_guard)

lemma run_103_guard:
  "list_all (\<lambda>x. signal_or_frame (snd x)) ops \<Longrightarrow> guard_consistent s \<Longrightarrow>
     guard_consistent (run_103 ops s)"
  unfolding run_103_def
  by (induction ops arbitrary: s) (simp_all add: step_guard)

lemma list_all_take: "list_all P xs \<Longrightarrow> list_all P (take n xs)"
  by (induction xs arbitrary: n) (auto simp add: take_Cons split: nat.splits)

lemma guard_pending: "guard_consistent s \<Longrightarrow> pendingFrames s \<le> 1"
  by (simp add: guard_consistent_def)

lemma enabled_guard:
  "guard_consistent (enable (constructor options page_style page_position))"
  "guard_consistent (enable (constructor_103 options page_style page_position))"
  by (simp_all add: guard_consistent_def enable_def addListeners_def constructor_def
      constructor_103_def)

lemma listener_while_pending:
  "isRunningRequest s \<Longrightarrow> resizeListener s = s\<lparr>events_Resize := True\<rparr>"
  "isRunningRequest s \<Longrightarrow> scrollListener s = s\<lparr>events_Scroll := True\<rparr>"
  by (simp_all add: resizeListener_def scrollListener_def request_def)

section \<open>The state machine against the transition table\<close>

lemma getState_103_table:
  "fst (getState_103 e d s) = first_match (spec_table (geometry_changed e s) (prevState s) e d s)"
  by (cases "prevState s") (simp_all add: getState_103_def geometry_changed_def eq_commute)

lemma getState_table:
  "fst (getState e d s) =
     first_match (spec_table (geometry_changed e s \<or> spaces_changed s) (prevState s) e d s)"
  by (cases "prevState s")
     (simp_all add: getState_def geometry_changed_def spaces_changed_def eq_commute)

lemma first_match_Rest:
  "first_match (spec_table refresh prev e d s) = State_Rest \<longleftrightarrow>
     \<not> some_condition (spec_table refresh prev e d s)"
  by (cases prev) (simp_all add: some_condition_def)

section \<open>Leaving \<open>ColliderTop\<close> for \<open>TranslateY\<close>\<close>

lemma render_TranslateY_from_ColliderTop:
  assumes "prevState s = State_ColliderTop"
  shows "translateY (render e State_TranslateY s) = prevColliderTop s - containerTop s"
    and "containerInner_style (render e State_TranslateY s) =
           \<lparr>style_width = style_width (listOfRules s), style_left = style_left (listOfRules s),
            style_top = style_top (listOfRules s), style_position = ''relative'',
            style_transform = translate3d (prevColliderTop s - containerTop s)\<rparr>"
    and "translateY (render_103 e State_TranslateY s) = colliderTop s - containerTop s"
    and "containerInner_style (render_103 e State_TranslateY s) =
           \<lparr>style_width = style_width (listOfRules s), style_left = style_left (listOfRules s),
            style_top = style_top (listOfRules s), style_position = ''relative'',
            style_transform = translate3d (colliderTop s - containerTop s)\<rparr>"
  using assms
  by (simp_all add: render_def render_rules_def render_103_def render_rules_103_def Let_def
      apply_rules_def nullish_def)

lemma calcScroll_TranslateY_from_ColliderTop:
  assumes "prevState s = State_ColliderTop" and "computed_state e s = State_TranslateY"
  shows "translateY (calcScroll e s) = prevColliderTop s - containerTop s"
    and "containerInner_style (calcScroll e s) =
           \<lparr>style_width = style_width (listOfRules s), style_left = style_left (listOfRules s),
            style_top = style_top (listOfRules s), style_position = ''relative'',
            style_transform = translate3d (prevColliderTop s - containerTop s)\<rparr>"
  using assms getState_snd [of e "getDirection e (s\<lparr>colliderTop := window_scrollY e + spaceTop s\<rparr>)"
      "s\<lparr>colliderTop := window_scrollY e + spaceTop s\<rparr>"]
  by (auto simp add: calcScroll_unfold computed_state_def Let_def
      render_TranslateY_from_ColliderTop)

lemma calcScroll_103_TranslateY_from_ColliderTop:
  assumes "prevState s = State_ColliderTop" and "computed_state_103 e s = State_TranslateY"
  shows "translateY (calcScroll_103 e s) = window_scrollY e + spaceTop s - containerTop s"
    and "containerInner_style (calcScroll_103 e s) =
           \<lparr>style_width = style_width (listOfRules s), style_left = style_left (listOfRules s),
            style_top = style_top (listOfRules s), style_position = ''relative'',
            style_transform = translate3d (window_scrollY e + spaceTop s - containerTop s)\<rparr>"
  using assms getState_103_snd [of e "getDirection e (s\<lparr>colliderTop := window_scrollY e + spaceTop s\<rparr>)"
      "s\<lparr>colliderTop := window_scrollY e + spaceTop s\<rparr>"]
  by (auto simp add: calcScroll_103_unfold computed_state_103_def Let_def
      render_TranslateY_from_ColliderTop)

lemma calcScroll_prevColliderTop:
  "prevColliderTop (calcScroll e s) = colliderTop (calcScroll e s)"
  by (simp add: calcScroll_unfold Let_def)

section \<open>Spaces, and frames after disabling\<close>

text \<open>A resize cycle ends with the previous spaces equal to the spaces, and the two
  operations that reset the controller leave the previous state \<open>None\<close>. A callback that
  is still queued when \<open>disable()\<close> is called finds no flag set and writes nothing.\<close>

lemma spaces_settled:
  "\<not> spaces_changed (calcDims e s)"
  "prevState (updateSpaces spaces s) = State_None"
  "prevState (disable e s) = State_None"
  by (simp_all add: spaces_changed_def calcDims_def Let_def render_keeps calcScroll_keeps
      updateSpaces_def disable_def resizeListener_def request_def init_def removeListeners_def)

lemma frame_after_disable:
  "containerInner_style (step (disable e s) (e', Frame)) = listOfRules s"
  "container_style_position (step (disable e s) (e', Frame)) = ''initial''"
  by (simp_all add: frame_callback_def Let_def disable_def render_def render_rules_def
      apply_rules_def nullish_def empty_rules_def init_def removeListeners_def)

section \<open>The resize cycle under the strategy \<open>None\<close>\<close>

text \<open>When the resize cycle classifies the strategy as \<open>None\<close> it does not run the state
  machine: \<open>prevState\<close> stays, and the state \<open>None\<close> is rendered exactly when the previous
  strategy was another one.\<close>

lemma calcDims_short_circuit:
  assumes "strategy (calcDims e s) = Strategy_None"
  shows "prevState (calcDims e s) = prevState s"
    and "containerInner_style (calcDims e s) =
           (if prevStrategy s \<noteq> Strategy_None then listOfRules s else containerInner_style s)"
    and "container_style_position (calcDims e s) =
           (if prevStrategy s \<noteq> Strategy_None then ''initial'' else container_style_position s)"
  using assms
  by (simp_all add: calcDims_strategy)
     (simp_all add: calcDims_def Let_def getStrategy_def classify_def render_def render_rules_def
       apply_rules_def nullish_def empty_rules_def split: if_splits)

section \<open>Every call of the state machine in a run\<close>

lemma calcScroll_via_call:
  "computed_state e s = call_result (scroll_call e s)"
  by (simp add: computed_state_def call_result_def scroll_call_def)

lemma calcDims_via_entry:
  "calcDims e s =
     (let s2 = resize_entry e s;
          s3 = (if strategy s2 = Strategy_None then
                  (if prevStrategy s2 \<noteq> strategy s2 then render e State_None s2 else s2)
                else calcScroll e s2)
      in s3\<lparr>prevContainerWidth := containerWidth s3,
            prevContainerLeft := containerLeft s3,
            prevContainerTop := containerTop s3,
            prevElementHeight := containerInner_offsetHeight_after e,
            prevStrategy := strategy s3,
            prevSpaceBottom := spaceBottom s3,
            prevSpaceTop := spaceTop s3\<rparr>)"
  by (simp add: calcDims_def resize_entry_def Let_def)

lemma settled_table:
  "settled s \<Longrightarrow>
     fst (getState e d s) = first_match (spec_table (geometry_changed e s) (prevState s) e d s)"
  by (cases "prevState s")
     (auto simp add: getState_table settled_def)

lemma reset_settled: "reset_until_resized s \<Longrightarrow> settled s"
  by (auto simp add: reset_until_resized_def settled_def)

lemma more_keeps:
  "containerHeight (render e st s) = containerHeight s"
  "maxTranslateY (render e st s) = maxTranslateY s"
  "prevSpaceTop (render e st s) = prevSpaceTop s"
  "prevSpaceBottom (render e st s) = prevSpaceBottom s"
  by (simp_all add: render_def render_rules_def Let_def)

lemma calcScroll_more_keeps:
  "containerHeight (calcScroll e s) = containerHeight s"
  "maxTranslateY (calcScroll e s) = maxTranslateY s"
  "prevSpaceTop (calcScroll e s) = prevSpaceTop s"
  "prevSpaceBottom (calcScroll e s) = prevSpaceBottom s"
  using getState_snd [of e "getDirection e (s\<lparr>colliderTop := window_scrollY e + spaceTop s\<rparr>)"
      "s\<lparr>colliderTop := window_scrollY e + spaceTop s\<rparr>"]
  by (auto simp add: calcScroll_unfold Let_def more_keeps)

lemma computed_state_reset:
  assumes "spaces_changed s" and "reset_until_resized s" and "0 \<le> containerInner_offsetHeight e"
  shows "computed_state e s = State_None \<or> computed_state e s = State_ContainerBottom \<or>
         computed_state e s = State_Rest"
  using assms
  by (auto simp add: reset_until_resized_def computed_state_def getState_def)

lemma calcScroll_reset:
  assumes "reset_until_resized s" and "0 \<le> containerInner_offsetHeight e"
  shows "reset_until_resized (calcScroll e s)"
proof (cases "spaces_changed s")
  case False
  then show ?thesis
    by (simp add: reset_until_resized_def spaces_changed_def calcScroll_keeps calcScroll_more_keeps)
next
  case True
  with assms computed_state_reset [OF True assms]
  show ?thesis
    by (auto simp add: reset_until_resized_def spaces_changed_def calcScroll_keeps
        calcScroll_more_keeps calcScroll_prevState)
qed


lemma init_reset: "reset_until_resized (init s)"
  by (simp add: reset_until_resized_def init_def)

lemma render_None_reset:
  "reset_until_resized s \<Longrightarrow> reset_until_resized (render e State_None s)"
  by (simp add: reset_until_resized_def spaces_changed_def render_keeps more_keeps)

lemma calcDims_reset: "reset_until_resized (calcDims e s)"
  by (simp add: reset_until_resized_def spaces_settled)

lemma flags_reset:
  "reset_until_resized (s\<lparr>events_Resize := b\<rparr>) = reset_until_resized s"
  "reset_until_resized (s\<lparr>events_Scroll := b\<rparr>) = reset_until_resized s"
  "reset_until_resized (s\<lparr>pendingFrames := n\<rparr>) = reset_until_resized s"
  "reset_until_resized (s\<lparr>isRunningRequest := b\<rparr>) = reset_until_resized s"
  "reset_until_resized (s\<lparr>listening := b\<rparr>) = reset_until_resized s"
  by (simp_all add: reset_until_resized_def spaces_changed_def)

lemma listeners_reset:
  "reset_until_resized (resizeListener s) = reset_until_resized s"
  "reset_until_resized (scrollListener s) = reset_until_resized s"
  by (simp_all add: resizeListener_def scrollListener_def request_def flags_reset)

lemma step_reset:
  assumes "reset_until_resized s" and "0 \<le> containerInner_offsetHeight (fst x)"
  shows "reset_until_resized (step s x)"
proof -
  obtain e op where x: "x = (e, op)" by (cases x)
  with assms show ?thesis
    by (cases op)
       (simp_all add: enable_def addListeners_def disable_def removeListeners_def updateSpaces_def
        frame_callback_def Let_def flags_reset listeners_reset init_reset render_None_reset
        calcDims_reset calcScroll_reset)
qed

lemma settled_fields:
  "settled (s\<lparr>colliderTop := c\<rparr>) = settled s"
  "settled (s\<lparr>events_Resize := b\<rparr>) = settled s"
  "settled (s\<lparr>events_Scroll := b\<rparr>) = settled s"
  "settled (s\<lparr>pendingFrames := n\<rparr>) = settled s"
  "settled (resize_entry e s) = settled s"
  by (simp_all add: settled_def spaces_changed_def resize_entry_def Let_def)

lemma settled_follows: "settled s \<Longrightarrow> follows_table (e, d, s)"
  by (simp add: follows_table_def call_result_def call_table_def settled_table first_match_Rest)

lemma step_calls_follow:
  assumes "settled s"
  shows "list_all follows_table (step_calls s x)"
proof -
  obtain e op where x: "x = (e, op)" by (cases x)
  with assms show ?thesis
    by (cases op)
       (simp_all add: frame_calls_def calcDims_calls_def scroll_call_def settled_follows
        settled_fields)
qed

lemma run_calls_follow:
  "reset_until_resized s \<Longrightarrow> heights_nonnegative ops \<Longrightarrow>
     list_all follows_table (run_calls ops s)"
proof (induction ops arbitrary: s)
  case Nil
  then show ?case by simp
next
  case (Cons x xs)
  from Cons.prems have h: "0 \<le> containerInner_offsetHeight (fst x)" and t: "heights_nonnegative xs"
    by (simp_all add: heights_nonnegative_def)
  from Cons.prems(1) h have "reset_until_resized (step s x)" by (rule step_reset)
  then have "list_all follows_table (run_calls xs (step s x))" using t by (rule Cons.IH)
  moreover from Cons.prems(1) have "list_all follows_table (step_calls s x)"
    by (intro step_calls_follow reset_settled)
  ultimately show ?case by simp
qed

lemma constructor_reset: "reset_until_resized (constructor options page_style page_position)"
  by (simp add: reset_until_resized_def spaces_changed_def constructor_def)

lemma run_reset:
  "reset_until_resized s \<Longrightarrow> heights_nonnegative ops \<Longrightarrow> reset_until_resized (run ops s)"
  unfolding run_def
  by (induction ops arbitrary: s) (simp_all add: heights_nonnegative_def step_reset)

section \<open>Evaluations on the example pages\<close>

lemma dock_top_prevState:
  "prevState (run ops_dock_top controller_fresh) = State_ColliderTop"
  "prevState (run_103 ops_dock_top controller_fresh_103) = State_ColliderTop"
  by code_simp+

lemma fresh_prevState:
  "prevState controller_fresh = State_None"
  "prevState controller_fresh_103 = State_None"
  by code_simp+

lemma resized_rest:
  "computed_state page_tall (calcDims page_tall controller_fresh) = State_Rest"
  "computed_state_103 page_tall (calcDims_103 page_tall controller_fresh_103) = State_Rest"
  by code_simp+

lemma burst_eval:
  "list_all (\<lambda>x. signal_or_frame (snd x)) ops_burst"
  "isRunningRequest (run (take 1 ops_burst) (enable controller_fresh))"
  "pendingFrames (run (take 1 ops_burst) (enable controller_fresh)) = 1"
  "pendingFrames (run (take 3 ops_burst) (enable controller_fresh)) = 1"
  "events_Resize (run (take 3 ops_burst) (enable controller_fresh))"
  "events_Scroll (run (take 3 ops_burst) (enable controller_fresh))"
  "pendingFrames (run (take 4 ops_burst) (enable controller_fresh)) = 0"
  by code_simp+

lemma grown_eval:
  "prevState (run ops_dock_top controller_fresh) = State_ColliderTop"
  "computed_state page_tall_grown (run ops_dock_top controller_fresh) = State_TranslateY"
  "prevColliderTop (run ops_dock_top controller_fresh) = 490"
  "colliderTop (calcScroll page_tall_grown (run ops_dock_top controller_fresh)) = 500"
  "containerTop (calcScroll page_tall_grown (run ops_dock_top controller_fresh)) = 100"
  "translateY (calcScroll page_tall_grown (run ops_dock_top controller_fresh)) = 390"
  "style_transform (containerInner_style
     (calcScroll page_tall_grown (run ops_dock_top controller_fresh)))
     = ''translate3d(0px, 390px, 0px)''"
  by code_simp+

lemma grown_103_eval:
  "prevState (run_103 ops_dock_top controller_fresh_103) = State_ColliderTop"
  "computed_state_103 page_tall_grown (run_103 ops_dock_top controller_fresh_103) = State_TranslateY"
  "colliderTop (calcScroll_103 page_tall_grown (run_103 ops_dock_top controller_fresh_103)) = 500"
  "containerTop (calcScroll_103 page_tall_grown (run_103 ops_dock_top controller_fresh_103)) = 100"
  by code_simp+

lemma short_eval:
  "strategy (run (take 3 ops_short) controller_fresh) = Strategy_None"
  "prevState (run (take 3 ops_short) controller_fresh) = State_None"
  "containerInner_style (run (take 3 ops_short) controller_fresh) = page_blank"
  "strategy (run ops_short controller_fresh) = Strategy_None"
  "prevState (run ops_short controller_fresh) = State_ContainerBottom"
  "containerInner_style (run ops_short controller_fresh) =
     \<lparr>style_width = ''300px'', style_left = ''0px'', style_top = ''0px'',
      style_position = ''sticky'', style_transform = ''initial''\<rparr>"
  "container_style_position (run ops_short controller_fresh) = ''relative''"
  "translateY (run ops_short controller_fresh) = - 1000"
  by code_simp+

lemma short_103_eval:
  "strategy (run_103 (take 3 ops_short) controller_fresh_103) = Strategy_None"
  "prevState (run_103 (take 3 ops_short) controller_fresh_103) = State_None"
  "strategy (run_103 ops_short controller_fresh_103) = Strategy_None"
  "prevState (run_103 ops_short controller_fresh_103) = State_ContainerBottom"
  "style_position (containerInner_style (run_103 ops_short controller_fresh_103)) = ''sticky''"
  by code_simp+

lemma respace_eval:
  "heights_nonnegative ops_dock_respace"
  "map call_result (run_calls ops_dock_respace controller_fresh) =
     [State_Rest, State_ColliderTop, State_Rest, State_ColliderTop]"
  "map (\<lambda>c. prevState (snd (snd c))) (run_calls ops_dock_respace controller_fresh) =
     [State_None, State_None, State_ColliderTop, State_None]"
  "map (\<lambda>c. spaces_changed (snd (snd c))) (run_calls ops_dock_respace controller_fresh) =
     [False, False, False, True]"
  "map (\<lambda>c. some_condition (call_table c)) (run_calls ops_dock_respace controller_fresh) =
     [False, True, False, True]"
  by code_simp+

lemma calcScroll_colliderHeight:
  "colliderHeight (calcScroll e s) = colliderHeight s"
  "colliderHeight (calcScroll_103 e s) = colliderHeight s"
  by (simp_all add: calcScroll_keeps calcScroll_103_keeps)

lemma px_eval:
  "px 64 = ''64px''" "px 300 = ''300px''" "px 0 = ''0px''" "px (- 8) = ''-8px''"
  by code_simp+

lemma spaced_eval:
  "safe_integer (spaceTop controller_spaced)"
  "safe_integer (container_clientWidth page_tall)"
  "px (spaceTop controller_spaced) = ''64px''"
  "px (container_clientWidth page_tall) = ''300px''"
  by code_simp+

lemma wide_eval:
  "prevState (run ops_dock_bottom_wide controller_fresh) = State_ContainerBottom"
  "rule_width (rules (run ops_dock_bottom_wide controller_fresh)) = Some ''400px''"
  "style_width (containerInner_style (run ops_dock_bottom_wide controller_fresh)) = ''400px''"
  "containerWidth (run ops_dock_bottom_wide controller_fresh) = 300"
  "px (containerWidth (run ops_dock_bottom_wide controller_fresh)) = ''300px''"
  "rule_width (rules (run ops_dock_bottom_wide controller_fresh)) \<noteq>
     Some (px (containerWidth (run ops_dock_bottom_wide controller_fresh)))"
  "prevState (run_103 ops_dock_bottom_wide controller_fresh_103) = State_ContainerBottom"
  "rule_width (rules (run_103 ops_dock_bottom_wide controller_fresh_103)) = Some ''400px''"
  "containerWidth (run_103 ops_dock_bottom_wide controller_fresh_103) = 300"
  by code_simp+

lemma stale_eval:
  "strategy (run ops_short_late controller_fresh) = Strategy_None"
  "colliderTop (run ops_short_late controller_fresh) = 0"
  "window_scrollY page_short_scrolled + spaceTop (run ops_short_late controller_fresh) = 50"
  "colliderHeight (run ops_dock_top_low controller_fresh) = 800"
  "window_innerHeight page_tall_low - spaceTop (run ops_dock_top_low controller_fresh)
     - spaceBottom (run ops_dock_top_low controller_fresh) = 600"
  "colliderTop (run_103 ops_short_late controller_fresh_103) = 0"
  "colliderHeight (run_103 ops_dock_top_low controller_fresh_103) = 800"
  by code_simp+

lemma requeue_eval:
  "pendingFrames (run (take 2 ops_requeue) controller_fresh) = 1"
  "pendingFrames (run ops_requeue controller_fresh) = 2"
  "pendingFrames (run (take 4 ops_reenable) controller_fresh) = 1"
  "isRunningRequest (run (take 4 ops_reenable) controller_fresh) = False"
  "pendingFrames (run ops_reenable controller_fresh) = 2"
  "pendingFrames (run_103 (take 4 ops_reenable) controller_fresh_103) = 1"
  "pendingFrames (run_103 ops_reenable controller_fresh_103) = 2"
  by code_simp+

lemma reset_queue:
  "pendingFrames (disable e u) = pendingFrames u"
  "isRunningRequest (disable e u) = False"
  "pendingFrames (disable_103 u) = pendingFrames u"
  "isRunningRequest (disable_103 u) = False"
  "pendingFrames (updateSpaces spaces u) = Suc (pendingFrames u)"
  by (simp_all add: disable_def disable_103_def updateSpaces_def render_keeps init_def
      removeListeners_def resizeListener_def request_def)

section \<open>The strategy classifier\<close>

text \<open>
  Claim C4. \<open>_getStrategy\<close> is a total function of exactly three numbers, the container
  height, the height of the managed element and the collider height: it is the
  specification's \<open>classify\<close> of these three, it returns one of \<open>None\<close>, \<open>Top\<close>, \<open>Both\<close>,
  it returns \<open>None\<close> when the container height is at most the element height (so also when
  the two are equal), otherwise \<open>Both\<close> when the collider height is below the element
  height, otherwise \<open>Top\<close>.
\<close>

theorem getStrategy_classify:
  "getStrategy e s = classify (containerHeight s) (containerInner_offsetHeight e) (colliderHeight s)
   \<and> getStrategy e s \<in> {Strategy_None, Strategy_Top, Strategy_Both}
   \<and> (containerHeight s \<le> containerInner_offsetHeight e \<longrightarrow> getStrategy e s = Strategy_None)
   \<and> (containerHeight s = containerInner_offsetHeight e \<longrightarrow> getStrategy e s = Strategy_None)
   \<and> (containerInner_offsetHeight e < containerHeight s \<and>
        colliderHeight s < containerInner_offsetHeight e \<longrightarrow> getStrategy e s = Strategy_Both)
   \<and> (containerInner_offsetHeight e < containerHeight s \<and>
        containerInner_offsetHeight e \<le> colliderHeight s \<longrightarrow> getStrategy e s = Strategy_Top)"
  by (simp add: getStrategy_def classify_def)

theorem getStrategy_classify_witness:
  "containerHeight
     ((constructor options_none page_blank [])\<lparr>containerHeight := 200, colliderHeight := 800\<rparr>)
     = containerInner_offsetHeight page_tall
   \<and> getStrategy page_tall
       ((constructor options_none page_blank [])\<lparr>containerHeight := 200, colliderHeight := 800\<rparr>)
     = Strategy_None"
  using getStrategy_classify
    [of page_tall
        "(constructor options_none page_blank [])\<lparr>containerHeight := 200, colliderHeight := 800\<rparr>"]
  by (simp add: page_tall_def classify_def)

section \<open>Changing the spaces\<close>


section \<open>The collider band\<close>

text \<open>
  Claim C9, as amended. Every scroll cycle derives \<open>colliderTop\<close> as the viewport scroll
  offset plus \<open>spaceTop\<close>, and leaves \<open>colliderHeight\<close> as it was. Every resize cycle
  derives \<open>colliderHeight\<close> as the viewport height minus \<open>spaceTop\<close> minus \<open>spaceBottom\<close>;
  it derives \<open>colliderTop\<close> as well, through the scroll cycle it runs, unless the strategy
  is \<open>None\<close>, and then \<open>colliderTop\<close> stays as it was. With \<open>spaceTop = 64\<close>,
  \<open>spaceBottom = 8\<close> and a viewport height of 800 the resize cycle gives the collider
  height 728. This holds in both revisions.
\<close>

theorem collider_band_derivation:
  "colliderTop (calcScroll e s) = window_scrollY e + spaceTop (calcScroll e s)
   \<and> colliderHeight (calcScroll e s) = colliderHeight s
   \<and> colliderHeight (calcDims e s) =
       window_innerHeight e - spaceTop (calcDims e s) - spaceBottom (calcDims e s)
   \<and> colliderTop (calcDims e s) =
       (if strategy (calcDims e s) = Strategy_None then colliderTop s
        else window_scrollY e + spaceTop (calcDims e s))
   \<and> colliderTop (calcScroll_103 e s) = window_scrollY e + spaceTop (calcScroll_103 e s)
   \<and> colliderHeight (calcScroll_103 e s) = colliderHeight s
   \<and> colliderHeight (calcDims_103 e s) =
       window_innerHeight e - spaceTop (calcDims_103 e s) - spaceBottom (calcDims_103 e s)
   \<and> colliderTop (calcDims_103 e s) =
       (if strategy (calcDims_103 e s) = Strategy_None then colliderTop s
        else window_scrollY e + spaceTop (calcDims_103 e s))
   \<and> (spaceTop s = 64 \<and> spaceBottom s = 8 \<and> window_innerHeight e = 800 \<longrightarrow>
        colliderHeight (calcDims e s) = 728 \<and> colliderHeight (calcDims_103 e s) = 728)"
  by (simp add: calcScroll_keeps calcDims_keeps calcScroll_103_keeps calcDims_103_keeps
      calcDims_colliderTop)

theorem collider_band_derivation_witness:
  "spaceTop controller_spaced = 64
   \<and> spaceBottom controller_spaced = 8
   \<and> window_innerHeight page_tall = 800
   \<and> colliderHeight (calcDims page_tall controller_spaced) = 728"
  using collider_band_derivation [of page_tall controller_spaced]
  by (simp add: controller_spaced_def constructor_def page_tall_def nullish_def)

text \<open>The band is not derived on every cycle. On a page scrolled to 50, a resize cycle under
  the strategy \<open>None\<close> leaves \<open>colliderTop\<close> at 0. After the viewport height has dropped from
  800 to 600 without a resize notification, a scroll cycle leaves \<open>colliderHeight\<close> at 800.\<close>

theorem collider_band_stale_counterexample:
  "strategy (run ops_short_late controller_fresh) = Strategy_None
   \<and> colliderTop (run ops_short_late controller_fresh) = 0
   \<and> window_scrollY page_short_scrolled + spaceTop (run ops_short_late controller_fresh) = 50
   \<and> colliderHeight (run ops_dock_top_low controller_fresh) = 800
   \<and> window_innerHeight page_tall_low - spaceTop (run ops_dock_top_low controller_fresh)
       - spaceBottom (run ops_dock_top_low controller_fresh) = 600
   \<and> colliderTop (run_103 ops_short_late controller_fresh_103) = 0
   \<and> colliderHeight (run_103 ops_dock_top_low controller_fresh_103) = 800"
  using stale_eval by blast

section \<open>The rules of the state \<open>ContainerBottom\<close>\<close>

text \<open>
  Claim C6, as amended. Rendering \<open>ContainerBottom\<close> sets \<open>translateY\<close> to \<open>maxTranslateY\<close>
  and, for safe integers, produces exactly the rules \<open>top = spaceTop\<close>, \<open>left = 0\<close>,
  \<open>position = sticky\<close> and \<open>width =\<close> the client width of the container as the page
  reports it at the moment of the render (in pixels; no \<open>transform\<close>), which are then
  written to the managed element. That reading is what a resize cycle stores in the field
  \<open>containerWidth\<close>; a scroll cycle does not refresh the field, so the width rule of a scroll
  cycle is the live client width and not the field. The position of the container is set
  to \<open>relative\<close> when the rendered state is \<open>ContainerBottom\<close> and to the reset value for
  every other state; the reset value is \<open>initial\<close> in revision 1.1.2 and the empty string in
  revision 1.0.3.
\<close>

theorem render_ContainerBottom:
  "translateY (render e State_ContainerBottom s) = maxTranslateY s
   \<and> (safe_integer (spaceTop s) \<and> safe_integer (container_clientWidth e) \<longrightarrow>
        rules (render e State_ContainerBottom s) =
          \<lparr>rule_width = Some (px (container_clientWidth e)),
           rule_left = Some ''0px'',
           rule_top = Some (px (spaceTop s)),
           rule_position = Some ''sticky'',
           rule_transform = None\<rparr> \<and>
        containerInner_style (render e State_ContainerBottom s) =
          \<lparr>style_width = px (container_clientWidth e),
           style_left = ''0px'',
           style_top = px (spaceTop s),
           style_position = ''sticky'',
           style_transform = style_transform (listOfRules s)\<rparr>)
   \<and> container_style_position (render e state s) =
       (if state = State_ContainerBottom then ''relative'' else ''initial'')
   \<and> translateY (render_103 e State_ContainerBottom s) = maxTranslateY s
   \<and> (safe_integer (spaceTop s) \<and> safe_integer (container_clientWidth e) \<longrightarrow>
        rules (render_103 e State_ContainerBottom s) =
          \<lparr>rule_width = Some (px (container_clientWidth e)),
           rule_left = Some ''0px'',
           rule_top = Some (px (spaceTop s)),
           rule_position = Some ''sticky'',
           rule_transform = None\<rparr> \<and>
        containerInner_style (render_103 e State_ContainerBottom s) =
          \<lparr>style_width = px (container_clientWidth e),
           style_left = ''0px'',
           style_top = px (spaceTop s),
           style_position = ''sticky'',
           style_transform = style_transform (listOfRules s)\<rparr>)
   \<and> container_style_position (render_103 e state s) =
       (if state = State_ContainerBottom then ''relative'' else [])
   \<and> containerWidth (calcDims e s) = container_clientWidth e
   \<and> containerWidth (calcDims_103 e s) = container_clientWidth e
   \<and> containerWidth (calcScroll e s) = containerWidth s
   \<and> containerWidth (calcScroll_103 e s) = containerWidth s
   \<and> px 64 = ''64px'' \<and> px 300 = ''300px'' \<and> px 0 = ''0px''"
  by (simp add: render_def render_rules_def render_103_def render_rules_103_def Let_def
      apply_rules_def nullish_def calcDims_keeps calcDims_103_keeps calcScroll_keeps
      calcScroll_103_keeps px_eval)

theorem render_ContainerBottom_witness:
  "safe_integer (spaceTop controller_spaced)
   \<and> safe_integer (container_clientWidth page_tall)
   \<and> rules (render page_tall State_ContainerBottom controller_spaced) =
       \<lparr>rule_width = Some ''300px'', rule_left = Some ''0px'', rule_top = Some ''64px'',
        rule_position = Some ''sticky'', rule_transform = None\<rparr>
   \<and> containerInner_style (render page_tall State_ContainerBottom controller_spaced) =
       \<lparr>style_width = ''300px'', style_left = ''0px'', style_top = ''64px'',
        style_position = ''sticky'', style_transform = ''initial''\<rparr>"
proof -
  note h = spaced_eval(1,2)
  have t: "style_transform (listOfRules controller_spaced) = ''initial''"
    by (simp add: controller_spaced_def constructor_def)
  from render_ContainerBottom [of page_tall controller_spaced] h
  have "rules (render page_tall State_ContainerBottom controller_spaced) =
          \<lparr>rule_width = Some (px (container_clientWidth page_tall)),
           rule_left = Some ''0px'',
           rule_top = Some (px (spaceTop controller_spaced)),
           rule_position = Some ''sticky'',
           rule_transform = None\<rparr>"
    and "containerInner_style (render page_tall State_ContainerBottom controller_spaced) =
          \<lparr>style_width = px (container_clientWidth page_tall),
           style_left = ''0px'',
           style_top = px (spaceTop controller_spaced),
           style_position = ''sticky'',
           style_transform = style_transform (listOfRules controller_spaced)\<rparr>"
    by blast+
  with h t show ?thesis by (simp add: spaced_eval(3,4))
qed

text \<open>The element is docked at the top of the collider with a container 300 wide. The
  container becomes 400 wide, and before any resize notification a scroll to 2950 docks the
  element at the bottom of the container: the width rule is \<open>400px\<close> while \<open>containerWidth\<close>
  is still 300.\<close>

theorem render_width_counterexample:
  "prevState (run ops_dock_bottom_wide controller_fresh) = State_ContainerBottom
   \<and> rule_width (rules (run ops_dock_bottom_wide controller_fresh)) = Some ''400px''
   \<and> style_width (containerInner_style (run ops_dock_bottom_wide controller_fresh)) = ''400px''
   \<and> containerWidth (run ops_dock_bottom_wide controller_fresh) = 300
   \<and> px (containerWidth (run ops_dock_bottom_wide controller_fresh)) = ''300px''
   \<and> rule_width (rules (run ops_dock_bottom_wide controller_fresh)) \<noteq>
       Some (px (containerWidth (run ops_dock_bottom_wide controller_fresh)))
   \<and> prevState (run_103 ops_dock_bottom_wide controller_fresh_103) = State_ContainerBottom
   \<and> rule_width (rules (run_103 ops_dock_bottom_wide controller_fresh_103)) = Some ''400px''
   \<and> containerWidth (run_103 ops_dock_bottom_wide controller_fresh_103) = 300"
  using wide_eval by blast

section \<open>\<open>Rest\<close> is never persisted\<close>

text \<open>
  Claim C8. The field \<open>prevState\<close> never holds \<open>Rest\<close>: not after construction, and not
  after any sequence of public calls, signals and frames, in either revision. A scroll
  cycle keeps this, because a cycle whose computed state is \<open>Rest\<close> leaves \<open>prevState\<close>
  as it was, and any other computed state is stored.
\<close>

theorem prevState_never_Rest:
  "prevState (run ops (constructor options page_style page_position)) \<noteq> State_Rest
   \<and> prevState (run_103 ops (constructor_103 options page_style page_position)) \<noteq> State_Rest
   \<and> (prevState s \<noteq> State_Rest \<longrightarrow>
        prevState (calcScroll e s) \<noteq> State_Rest \<and> prevState (calcScroll_103 e s) \<noteq> State_Rest)
   \<and> (computed_state e s = State_Rest \<longrightarrow> prevState (calcScroll e s) = prevState s)
   \<and> (computed_state_103 e s = State_Rest \<longrightarrow> prevState (calcScroll_103 e s) = prevState s)"
proof -
  have "prevState (constructor options page_style page_position) \<noteq> State_Rest"
    by (simp add: constructor_def)
  moreover have "prevState (constructor_103 options page_style page_position) \<noteq> State_Rest"
    by (simp add: constructor_103_def)
  ultimately show ?thesis
    by (simp add: run_not_Rest run_103_not_Rest calcScroll_not_Rest calcScroll_prevState
        calcScroll_103_prevState)
qed

theorem prevState_never_Rest_witness:
  "prevState controller_fresh \<noteq> State_Rest
   \<and> prevState (calcScroll page_tall_scrolled controller_fresh) \<noteq> State_Rest
   \<and> computed_state page_tall (calcDims page_tall controller_fresh) = State_Rest
   \<and> prevState (calcScroll page_tall (calcDims page_tall controller_fresh))
       = prevState (calcDims page_tall controller_fresh)
   \<and> prevState (run ops_dock_top controller_fresh) \<noteq> State_Rest"
proof -
  have h1: "prevState controller_fresh \<noteq> State_Rest"
    by (simp add: fresh_prevState)
  have h2: "computed_state page_tall (calcDims page_tall controller_fresh) = State_Rest"
    by (rule resized_rest)
  from prevState_never_Rest [of ops_dock_top options_none page_blank "[]" controller_fresh
      page_tall_scrolled] h1
  have c1: "prevState (calcScroll page_tall_scrolled controller_fresh) \<noteq> State_Rest"
    and c3: "prevState (run ops_dock_top controller_fresh) \<noteq> State_Rest"
    by (simp_all add: controller_fresh_def)
  from prevState_never_Rest [of ops_dock_top options_none page_blank "[]"
      "calcDims page_tall controller_fresh" page_tall] h2
  have c2: "prevState (calcScroll page_tall (calcDims page_tall controller_fresh))
       = prevState (calcDims page_tall controller_fresh)"
    by simp
  from h1 h2 c1 c2 c3 show ?thesis by simp
qed

section \<open>Disabling\<close>

text \<open>
  Claim C3, as amended. In revision 1.1.2, whatever sequence of calls, signals and frames
  followed \<open>enable()\<close>, and so whatever state is active, \<open>disable()\<close> writes the configured
  defaults to all five tracked properties of the managed element (\<open>initial\<close> for \<open>width\<close>,
  \<open>left\<close>, \<open>top\<close> and \<open>transform\<close>, and the \<open>position\<close> option, by default \<open>initial\<close>, for
  \<open>position\<close>) and sets the position of the container to \<open>initial\<close>. In revision 1.0.3,
  \<open>disable()\<close> only removes the listeners and clears the scheduling flags: the styles of the
  managed element and of the container stay as the last render wrote them.
\<close>

theorem disable_restores_defaults:
  "containerInner_style (disable e (run ops (enable (constructor options page_style page_position)))) =
     \<lparr>style_width = ''initial'', style_left = ''initial'', style_top = ''initial'',
      style_position = (case opt_position options of None \<Rightarrow> ''initial'' | Some p \<Rightarrow> p),
      style_transform = ''initial''\<rparr>
   \<and> container_style_position
        (disable e (run ops (enable (constructor options page_style page_position)))) = ''initial''
   \<and> containerInner_style (disable e s) = listOfRules s
   \<and> container_style_position (disable e s) = ''initial''
   \<and> containerInner_style (step (disable e s) (e', Frame)) = listOfRules s
   \<and> container_style_position (step (disable e s) (e', Frame)) = ''initial''
   \<and> containerInner_style (disable_103 s) = containerInner_style s
   \<and> container_style_position (disable_103 s) = container_style_position s"
  by (simp add: disable_styles run_listOfRules enable_def addListeners_def constructor_def
      nullish_def disable_103_def removeListeners_def frame_after_disable del: step.simps)

text \<open>In revision 1.0.3 the element docked at the top of the collider keeps the position
  \<open>fixed\<close> through \<open>disable()\<close>, while the configured default is the empty string.\<close>

theorem disable_103_counterexample:
  "style_position (containerInner_style (disable_103 (run_103 ops_dock_top controller_fresh_103)))
     = ''fixed''
   \<and> style_position (listOfRules (disable_103 (run_103 ops_dock_top controller_fresh_103))) = []
   \<and> containerInner_style (disable_103 (run_103 ops_dock_top controller_fresh_103))
       \<noteq> listOfRules (disable_103 (run_103 ops_dock_top controller_fresh_103))"
  by code_simp

section \<open>Coalescing of signals\<close>

text \<open>
  Claim C7, as amended. Take a controller whose guard \<open>isRunningRequest\<close> is in step with
  the queue of the platform, as it is after construction and \<open>enable()\<close>, and any
  interleaving of resize notifications, scroll events and frames. At every moment of it
  (after any number \<open>n\<close> of these events) at most one callback is queued, and a signal that
  arrives while one is queued only sets its flag: the listener changes nothing else. At
  any controller, a listener that finds the guard set only sets its flag; and when both
  flags are set at a frame, the callback runs the resize recompute \<open>_calcDims\<close> and not the
  scroll branch, and the scroll flag is still set afterwards. The public operations do
  not keep the guard in step with the queue: \<open>disable()\<close>, in both revisions, clears the
  guard and leaves a queued callback queued, and \<open>updateSpaces()\<close> of revision 1.1.2 clears
  the guard and always queues one more callback.
\<close>

theorem scheduling_guard:
  assumes "list_all (\<lambda>x. signal_or_frame (snd x)) ops" and "guard_consistent s"
  shows
  "pendingFrames (run (take n ops) s) \<le> 1
   \<and> pendingFrames (run_103 (take n ops) s) \<le> 1
   \<and> (0 < pendingFrames (run (take n ops) s) \<longrightarrow>
        resizeListener (run (take n ops) s) = (run (take n ops) s)\<lparr>events_Resize := True\<rparr> \<and>
        scrollListener (run (take n ops) s) = (run (take n ops) s)\<lparr>events_Scroll := True\<rparr>)
   \<and> (0 < pendingFrames (run_103 (take n ops) s) \<longrightarrow>
        resizeListener (run_103 (take n ops) s) =
          (run_103 (take n ops) s)\<lparr>events_Resize := True\<rparr> \<and>
        scrollListener (run_103 (take n ops) s) =
          (run_103 (take n ops) s)\<lparr>events_Scroll := True\<rparr>)
   \<and> guard_consistent (enable (constructor options page_style page_position))
   \<and> guard_consistent (enable (constructor_103 options page_style page_position))
   \<and> (isRunningRequest u \<longrightarrow>
        resizeListener u = u\<lparr>events_Resize := True\<rparr> \<and>
        scrollListener u = u\<lparr>events_Scroll := True\<rparr>)
   \<and> (events_Resize u \<and> events_Scroll u \<longrightarrow>
        frame_callback e u = (calcDims e (u\<lparr>events_Resize := False\<rparr>))\<lparr>isRunningRequest := False\<rparr> \<and>
        events_Scroll (frame_callback e u) \<and>
        frame_callback_103 e u =
          (calcDims_103 e (u\<lparr>events_Resize := False\<rparr>))\<lparr>isRunningRequest := False\<rparr> \<and>
        events_Scroll (frame_callback_103 e u))
   \<and> pendingFrames (disable e u) = pendingFrames u \<and> \<not> isRunningRequest (disable e u)
   \<and> pendingFrames (disable_103 u) = pendingFrames u \<and> \<not> isRunningRequest (disable_103 u)
   \<and> pendingFrames (updateSpaces spaces u) = Suc (pendingFrames u)"
proof -
  from assms(1) have t: "list_all (\<lambda>x. signal_or_frame (snd x)) (take n ops)"
    by (rule list_all_take)
  have g: "guard_consistent (run (take n ops) s)"
    using t assms(2) by (rule run_guard)
  have g': "guard_consistent (run_103 (take n ops) s)"
    using t assms(2) by (rule run_103_guard)
  have a: "pendingFrames (run (take n ops) s) \<le> 1"
    using g by (rule guard_pending)
  have b: "pendingFrames (run_103 (take n ops) s) \<le> 1"
    using g' by (rule guard_pending)
  have r: "\<And>v. guard_consistent v \<Longrightarrow> 0 < pendingFrames v \<Longrightarrow> isRunningRequest v"
    by (simp add: guard_consistent_def split: if_splits)
  have c: "0 < pendingFrames (run (take n ops) s) \<longrightarrow>
        resizeListener (run (take n ops) s) = (run (take n ops) s)\<lparr>events_Resize := True\<rparr> \<and>
        scrollListener (run (take n ops) s) = (run (take n ops) s)\<lparr>events_Scroll := True\<rparr>"
    using r [OF g] by (simp add: listener_while_pending)
  have c': "0 < pendingFrames (run_103 (take n ops) s) \<longrightarrow>
        resizeListener (run_103 (take n ops) s) =
          (run_103 (take n ops) s)\<lparr>events_Resize := True\<rparr> \<and>
        scrollListener (run_103 (take n ops) s) =
          (run_103 (take n ops) s)\<lparr>events_Scroll := True\<rparr>"
    using r [OF g'] by (simp add: listener_while_pending)
  have d: "isRunningRequest u \<longrightarrow>
        resizeListener u = u\<lparr>events_Resize := True\<rparr> \<and>
        scrollListener u = u\<lparr>events_Scroll := True\<rparr>"
    by (simp add: listener_while_pending)
  have p: "events_Resize u \<and> events_Scroll u \<longrightarrow>
        frame_callback e u = (calcDims e (u\<lparr>events_Resize := False\<rparr>))\<lparr>isRunningRequest := False\<rparr> \<and>
        events_Scroll (frame_callback e u) \<and>
        frame_callback_103 e u =
          (calcDims_103 e (u\<lparr>events_Resize := False\<rparr>))\<lparr>isRunningRequest := False\<rparr> \<and>
        events_Scroll (frame_callback_103 e u)"
    by (simp add: frame_callback_def frame_callback_103_def Let_def calcDims_keeps
        calcDims_103_keeps)
  have q: "pendingFrames (disable e u) = pendingFrames u \<and> \<not> isRunningRequest (disable e u)
     \<and> pendingFrames (disable_103 u) = pendingFrames u \<and> \<not> isRunningRequest (disable_103 u)
     \<and> pendingFrames (updateSpaces spaces u) = Suc (pendingFrames u)"
    by (simp add: reset_queue)
  from a b c c' d p q enabled_guard [of options page_style page_position]
  show ?thesis by blast
qed

theorem scheduling_guard_witness:
  "list_all (\<lambda>x. signal_or_frame (snd x)) ops_burst
   \<and> guard_consistent (enable controller_fresh)
   \<and> pendingFrames (run (take 3 ops_burst) (enable controller_fresh)) \<le> 1
   \<and> 0 < pendingFrames (run (take 3 ops_burst) (enable controller_fresh))
   \<and> scrollListener (run (take 3 ops_burst) (enable controller_fresh)) =
       (run (take 3 ops_burst) (enable controller_fresh))\<lparr>events_Scroll := True\<rparr>
   \<and> isRunningRequest (run (take 1 ops_burst) (enable controller_fresh))
   \<and> events_Resize (run (take 3 ops_burst) (enable controller_fresh))
   \<and> events_Scroll (run (take 3 ops_burst) (enable controller_fresh))
   \<and> events_Scroll (frame_callback page_tall_scrolled
        (run (take 3 ops_burst) (enable controller_fresh)))"
proof -
  note h = burst_eval(1)
  have g: "guard_consistent (enable controller_fresh)"
    unfolding controller_fresh_def by (rule enabled_guard)
  have p: "0 < pendingFrames (run (take 3 ops_burst) (enable controller_fresh))"
    by (simp add: burst_eval)
  note f = burst_eval(5,6)
  note th = scheduling_guard [OF h g, of 3 options_none page_blank "[]"
      "run (take 3 ops_burst) (enable controller_fresh)" page_tall_scrolled]
  from th have c1: "pendingFrames (run (take 3 ops_burst) (enable controller_fresh)) \<le> 1"
    by blast
  from th p have c2: "scrollListener (run (take 3 ops_burst) (enable controller_fresh)) =
       (run (take 3 ops_burst) (enable controller_fresh))\<lparr>events_Scroll := True\<rparr>"
    by blast
  from th f have c3: "events_Scroll (frame_callback page_tall_scrolled
        (run (take 3 ops_burst) (enable controller_fresh)))"
    by blast
  from h g p f burst_eval(2) c1 c2 c3 show ?thesis by blast
qed

text \<open>With the public operations in the run, two callbacks can be queued at once: after a
  resize notification, \<open>updateSpaces()\<close> of revision 1.1.2 queues a second callback; and in
  both revisions, after a resize notification followed by \<open>disable()\<close> and \<open>enable()\<close>, one
  callback is queued with the guard cleared, and the next scroll event queues a second.\<close>

theorem scheduling_guard_counterexample:
  "pendingFrames (run (take 2 ops_requeue) controller_fresh) = 1
   \<and> pendingFrames (run ops_requeue controller_fresh) = 2
   \<and> pendingFrames (run (take 4 ops_reenable) controller_fresh) = 1
   \<and> isRunningRequest (run (take 4 ops_reenable) controller_fresh) = False
   \<and> pendingFrames (run ops_reenable controller_fresh) = 2
   \<and> pendingFrames (run_103 (take 4 ops_reenable) controller_fresh_103) = 1
   \<and> pendingFrames (run_103 ops_reenable controller_fresh_103) = 2"
  using requeue_eval by blast

section \<open>Determinism of the state machine\<close>

text \<open>
  Claim C2. \<open>_getState\<close> returns one of the six states and has no failing branch. Every
  call of it that a run of the program makes, from construction through any sequence of
  public calls, signals and frames on a page that reports no negative element height,
  returns the target of the first condition of the specification's table that holds, and
  \<open>Rest\<close> if and only if none holds; the refresh rule of that table has the four triggers
  scroll-X, containerLeft, containerWidth and containerTop. The same holds at every settled
  controller, and every controller that a run reaches is settled. (Revision 1.1.2 also
  compares the spaces with the previous spaces in the refresh rule of \<open>ColliderTop\<close> and
  \<open>ColliderBottom\<close>, but no run makes a call in one of these two states with the spaces
  changed.) In revision 1.0.3 the function is the table at every controller.
\<close>

theorem getState_follows_table:
  assumes "heights_nonnegative ops"
  shows
  "list_all follows_table (run_calls ops (constructor options page_style page_position))
   \<and> settled (run ops (constructor options page_style page_position))
   \<and> (settled s \<longrightarrow>
        fst (getState e d s) =
          first_match (spec_table (geometry_changed e s) (prevState s) e d s) \<and>
        (fst (getState e d s) = State_Rest \<longleftrightarrow>
           \<not> some_condition (spec_table (geometry_changed e s) (prevState s) e d s)))
   \<and> fst (getState_103 e d s) =
        first_match (spec_table (geometry_changed e s) (prevState s) e d s)
   \<and> (fst (getState_103 e d s) = State_Rest \<longleftrightarrow>
        \<not> some_condition (spec_table (geometry_changed e s) (prevState s) e d s))
   \<and> fst (getState e d s) \<in>
        {State_ContainerBottom, State_ColliderTop, State_ColliderBottom, State_None,
         State_TranslateY, State_Rest}
   \<and> fst (getState_103 e d s) \<in>
        {State_ContainerBottom, State_ColliderTop, State_ColliderBottom, State_None,
         State_TranslateY, State_Rest}"
proof -
  have six: "\<And>x. x \<in> {State_ContainerBottom, State_ColliderTop, State_ColliderBottom, State_None,
         State_TranslateY, State_Rest}"
    by (case_tac x) simp_all
  have a: "list_all follows_table (run_calls ops (constructor options page_style page_position))"
    using constructor_reset assms by (rule run_calls_follow)
  have b: "settled (run ops (constructor options page_style page_position))"
    by (rule reset_settled, rule run_reset [OF constructor_reset assms])
  have c: "settled s \<longrightarrow>
        fst (getState e d s) =
          first_match (spec_table (geometry_changed e s) (prevState s) e d s) \<and>
        (fst (getState e d s) = State_Rest \<longleftrightarrow>
           \<not> some_condition (spec_table (geometry_changed e s) (prevState s) e d s))"
    by (simp add: settled_table first_match_Rest)
  have d1: "fst (getState_103 e d s) =
      first_match (spec_table (geometry_changed e s) (prevState s) e d s)"
    by (rule getState_103_table)
  have d2: "fst (getState_103 e d s) = State_Rest \<longleftrightarrow>
        \<not> some_condition (spec_table (geometry_changed e s) (prevState s) e d s)"
    by (simp only: d1 first_match_Rest)
  from a b c d1 d2 six [of "fst (getState e d s)"] six [of "fst (getState_103 e d s)"]
  show ?thesis by blast
qed

theorem getState_follows_table_witness:
  "heights_nonnegative ops_dock_respace
   \<and> map call_result (run_calls ops_dock_respace controller_fresh) =
       [State_Rest, State_ColliderTop, State_Rest, State_ColliderTop]
   \<and> map (\<lambda>c. prevState (snd (snd c))) (run_calls ops_dock_respace controller_fresh) =
       [State_None, State_None, State_ColliderTop, State_None]
   \<and> map (\<lambda>c. spaces_changed (snd (snd c))) (run_calls ops_dock_respace controller_fresh) =
       [False, False, False, True]
   \<and> map (\<lambda>c. some_condition (call_table c)) (run_calls ops_dock_respace controller_fresh) =
       [False, True, False, True]
   \<and> list_all follows_table (run_calls ops_dock_respace controller_fresh)
   \<and> settled (run ops_dock_respace controller_fresh)"
proof -
  note h = respace_eval(1)
  from getState_follows_table [OF h, of options_none page_blank "[]"]
  have c: "list_all follows_table (run_calls ops_dock_respace controller_fresh)"
    and c': "settled (run ops_dock_respace controller_fresh)"
    by (simp_all add: controller_fresh_def)
  from respace_eval c c' show ?thesis by blast
qed

section \<open>Continuity on leaving \<open>ColliderTop\<close>\<close>

text \<open>
  Claim C1, as amended. Whenever a scroll cycle finds the previous state \<open>ColliderTop\<close> and
  computes \<open>TranslateY\<close>, the new state is stored, the position written is \<open>relative\<close> and
  the transform written is \<open>translate3d(0px, translateY px, 0px)\<close> with the \<open>translateY\<close> of
  that cycle. In revision 1.1.2 this \<open>translateY\<close> is \<open>prevColliderTop - containerTop\<close>, where
  \<open>prevColliderTop\<close> is the collider top that the previous scroll cycle stored at its end.
  In revision 1.0.3 it is \<open>colliderTop - containerTop\<close> with the collider top of the current
  cycle, the viewport scroll offset plus \<open>spaceTop\<close>.
\<close>

theorem translateY_on_leaving_ColliderTop:
  "(prevState s = State_ColliderTop \<and> computed_state e s = State_TranslateY \<longrightarrow>
      prevState (calcScroll e s) = State_TranslateY \<and>
      translateY (calcScroll e s) = prevColliderTop s - containerTop (calcScroll e s) \<and>
      style_position (containerInner_style (calcScroll e s)) = ''relative'' \<and>
      style_transform (containerInner_style (calcScroll e s)) =
        ''translate3d(0px, '' @ Number_toString (translateY (calcScroll e s)) @ ''px, 0px)'')
   \<and> prevColliderTop (calcScroll e s) = colliderTop (calcScroll e s)
   \<and> (prevState s = State_ColliderTop \<and> computed_state_103 e s = State_TranslateY \<longrightarrow>
      prevState (calcScroll_103 e s) = State_TranslateY \<and>
      translateY (calcScroll_103 e s) =
        colliderTop (calcScroll_103 e s) - containerTop (calcScroll_103 e s) \<and>
      colliderTop (calcScroll_103 e s) = window_scrollY e + spaceTop s \<and>
      style_position (containerInner_style (calcScroll_103 e s)) = ''relative'' \<and>
      style_transform (containerInner_style (calcScroll_103 e s)) =
        ''translate3d(0px, '' @ Number_toString (translateY (calcScroll_103 e s)) @ ''px, 0px)'')"
proof -
  have a: "prevState s = State_ColliderTop \<and> computed_state e s = State_TranslateY \<longrightarrow>
      prevState (calcScroll e s) = State_TranslateY \<and>
      translateY (calcScroll e s) = prevColliderTop s - containerTop (calcScroll e s) \<and>
      style_position (containerInner_style (calcScroll e s)) = ''relative'' \<and>
      style_transform (containerInner_style (calcScroll e s)) =
        ''translate3d(0px, '' @ Number_toString (translateY (calcScroll e s)) @ ''px, 0px)''"
    by (simp add: calcScroll_TranslateY_from_ColliderTop calcScroll_prevState calcScroll_keeps
        translate3d_def)
  have b: "prevState s = State_ColliderTop \<and> computed_state_103 e s = State_TranslateY \<longrightarrow>
      prevState (calcScroll_103 e s) = State_TranslateY \<and>
      translateY (calcScroll_103 e s) =
        colliderTop (calcScroll_103 e s) - containerTop (calcScroll_103 e s) \<and>
      colliderTop (calcScroll_103 e s) = window_scrollY e + spaceTop s \<and>
      style_position (containerInner_style (calcScroll_103 e s)) = ''relative'' \<and>
      style_transform (containerInner_style (calcScroll_103 e s)) =
        ''translate3d(0px, '' @ Number_toString (translateY (calcScroll_103 e s)) @ ''px, 0px)''"
    by (simp add: calcScroll_103_TranslateY_from_ColliderTop calcScroll_103_prevState
        calcScroll_103_keeps translate3d_def)
  from a b calcScroll_prevColliderTop [of e s] show ?thesis by blast
qed

theorem translateY_on_leaving_ColliderTop_witness:
  "prevState (run ops_dock_top controller_fresh) = State_ColliderTop
   \<and> computed_state page_tall_grown (run ops_dock_top controller_fresh) = State_TranslateY
   \<and> prevColliderTop (run ops_dock_top controller_fresh) = 490
   \<and> translateY (calcScroll page_tall_grown (run ops_dock_top controller_fresh)) = 490 - 100
   \<and> prevState (run_103 ops_dock_top controller_fresh_103) = State_ColliderTop
   \<and> computed_state_103 page_tall_grown (run_103 ops_dock_top controller_fresh_103) = State_TranslateY
   \<and> translateY (calcScroll_103 page_tall_grown (run_103 ops_dock_top controller_fresh_103)) = 500 - 100"
proof -
  note h = grown_eval(1,2)
  note h' = grown_103_eval(1,2)
  from translateY_on_leaving_ColliderTop [of "run ops_dock_top controller_fresh" page_tall_grown] h
  have "translateY (calcScroll page_tall_grown (run ops_dock_top controller_fresh)) =
      prevColliderTop (run ops_dock_top controller_fresh)
      - containerTop (calcScroll page_tall_grown (run ops_dock_top controller_fresh))"
    by blast
  then have c1: "translateY (calcScroll page_tall_grown (run ops_dock_top controller_fresh)) = 490 - 100"
    by (simp only: grown_eval(3,5))
  from translateY_on_leaving_ColliderTop [of "run_103 ops_dock_top controller_fresh_103"
      page_tall_grown] h'
  have "translateY (calcScroll_103 page_tall_grown (run_103 ops_dock_top controller_fresh_103)) =
      colliderTop (calcScroll_103 page_tall_grown (run_103 ops_dock_top controller_fresh_103))
      - containerTop (calcScroll_103 page_tall_grown (run_103 ops_dock_top controller_fresh_103))"
    by blast
  then have c2: "translateY (calcScroll_103 page_tall_grown (run_103 ops_dock_top controller_fresh_103))
      = 500 - 100"
    by (simp only: grown_103_eval(3,4))
  from h h' grown_eval(3) c1 c2 show ?thesis by blast
qed

text \<open>In revision 1.1.2, the element is docked at the top of the collider after a scroll
  to 490; it then grows above the collider height and the page is scrolled to 500. The
  scroll cycle computes \<open>TranslateY\<close> with \<open>colliderTop = 500\<close> and \<open>containerTop = 100\<close>, and
  resolves \<open>translateY = 390\<close>, not 400.\<close>

theorem translateY_previous_collider_counterexample:
  "prevState (run ops_dock_top controller_fresh) = State_ColliderTop
   \<and> computed_state page_tall_grown (run ops_dock_top controller_fresh) = State_TranslateY
   \<and> colliderTop (calcScroll page_tall_grown (run ops_dock_top controller_fresh)) = 500
   \<and> containerTop (calcScroll page_tall_grown (run ops_dock_top controller_fresh)) = 100
   \<and> translateY (calcScroll page_tall_grown (run ops_dock_top controller_fresh)) = 390
   \<and> translateY (calcScroll page_tall_grown (run ops_dock_top controller_fresh)) \<noteq>
       colliderTop (calcScroll page_tall_grown (run ops_dock_top controller_fresh))
       - containerTop (calcScroll page_tall_grown (run ops_dock_top controller_fresh))
   \<and> style_transform (containerInner_style
       (calcScroll page_tall_grown (run ops_dock_top controller_fresh)))
       = ''translate3d(0px, 390px, 0px)''"
  by (simp add: grown_eval)

section \<open>Scrolling under the strategy \<open>None\<close>\<close>

text \<open>
  Claim C5 fails on the code. A container of height 1000 holds an element of height 2000,
  so the strategy is \<open>None\<close>: the first resize cycle leaves the state \<open>None\<close> and writes no
  style. The next scroll event runs \<open>_calcScroll\<close> from the frame callback, which does not
  look at the strategy: the state machine is evaluated, the transition from \<open>None\<close> to
  \<open>ContainerBottom\<close> fires and its styles are written, while the strategy is still \<open>None\<close>.
  Both revisions do this.
\<close>

theorem strategy_None_scroll_fires:
  "strategy (run (take 3 ops_short) controller_fresh) = Strategy_None
   \<and> prevState (run (take 3 ops_short) controller_fresh) = State_None
   \<and> containerInner_style (run (take 3 ops_short) controller_fresh) = page_blank
   \<and> strategy (run ops_short controller_fresh) = Strategy_None
   \<and> prevState (run ops_short controller_fresh) = State_ContainerBottom
   \<and> containerInner_style (run ops_short controller_fresh) =
       \<lparr>style_width = ''300px'', style_left = ''0px'', style_top = ''0px'',
        style_position = ''sticky'', style_transform = ''initial''\<rparr>
   \<and> container_style_position (run ops_short controller_fresh) = ''relative''
   \<and> translateY (run ops_short controller_fresh) = - 1000
   \<and> strategy (run_103 ops_short controller_fresh_103) = Strategy_None
   \<and> prevState (run_103 ops_short controller_fresh_103) = State_ContainerBottom
   \<and> style_position (containerInner_style (run_103 ops_short controller_fresh_103)) = ''sticky''"
  by (simp add: short_eval short_103_eval)

end
